theory Spec2Isabelle
  imports Complex_Main
begin

section \<open>Numbers\<close>

text \<open>
  The program computes with JavaScript numbers. They are modelled as the ideal reals:
  every arithmetic operation is exact, \<open>NaN\<close> and the infinities do not occur, and a
  tolerance constant such as \<open>1e-12\<close> is the rational number it denotes. There are two
  exceptions. The tangent of the half angle at an exact U-turn, where the reals have a
  pole, is the finite number the language computes (\<open>tanHalfAngle\<close>). And in the part on
  the exported document a number is a value of the language, with negative zero, \<open>NaN\<close>
  and the infinities (\<open>jsval\<close>), because the property there is that values come back
  bit-identical.
\<close>

section \<open>Cubic polynomials and piecewise splines (src/xodr/spline.js)\<close>

text \<open>Class \<open>Poly3\<close>: the coefficients \<open>a, b, c, d\<close> of \<open>a + b*ds + c*ds^2 + d*ds^3\<close>.\<close>

record Poly3 =
  pa :: real
  pb :: real
  pc :: real
  pd :: real

definition Poly3_new :: "real \<Rightarrow> real \<Rightarrow> real \<Rightarrow> real \<Rightarrow> Poly3" where
  "Poly3_new a b c d = \<lparr>pa = a, pb = b, pc = c, pd = d\<rparr>"

definition Poly3_value :: "Poly3 \<Rightarrow> real \<Rightarrow> real" where
  "Poly3_value p ds = pa p + pb p * ds + pc p * ds * ds + pd p * ds * ds * ds"

definition Poly3_deriv :: "Poly3 \<Rightarrow> real \<Rightarrow> real" where
  "Poly3_deriv p ds = pb p + 2 * pc p * ds + 3 * pd p * ds * ds"

definition Poly3_deriv2 :: "Poly3 \<Rightarrow> real \<Rightarrow> real" where
  "Poly3_deriv2 p ds = 2 * pc p + 6 * pd p * ds"

definition Poly3_deriv3 :: "Poly3 \<Rightarrow> real" where
  "Poly3_deriv3 p = 6 * pd p"

definition Poly3_rebase :: "Poly3 \<Rightarrow> real \<Rightarrow> Poly3" where
  "Poly3_rebase p delta =
     (let f0 = Poly3_value p delta;
          f1 = Poly3_deriv p delta;
          f2 = Poly3_deriv2 p delta;
          f3 = Poly3_deriv3 p
      in Poly3_new f0 f1 (f2 / 2) (f3 / 6))"

definition Poly3_add :: "Poly3 \<Rightarrow> Poly3 \<Rightarrow> Poly3" where
  "Poly3_add p other = Poly3_new (pa p + pa other) (pb p + pb other) (pc p + pc other) (pd p + pd other)"

definition Poly3_negate :: "Poly3 \<Rightarrow> Poly3" where
  "Poly3_negate p = Poly3_new (- pa p) (- pb p) (- pc p) (- pd p)"

text \<open>
  Class \<open>CubicSpline\<close>: the array \<open>seg\<close> of segments \<open>{s0, poly}\<close>. A spline is
  modelled as that array. \<open>fromSegments\<close> and \<open>addSegment\<close> sort it by \<open>s0\<close> with
  the stable \<open>Array.prototype.sort\<close>.
\<close>

record Segment =
  s0 :: real
  poly :: Poly3

type_synonym CubicSpline = "Segment list"

text \<open>A raw segment \<open>{s0, a, b, c, d}\<close> as \<open>fromSegments\<close> receives it.\<close>

record RawSegment =
  rs0 :: real
  ra :: real
  rb :: real
  rc :: real
  rd :: real

definition CubicSpline_fromSegments :: "RawSegment list \<Rightarrow> CubicSpline" where
  "CubicSpline_fromSegments segments =
     sort_key s0 (map (\<lambda>s. \<lparr>s0 = rs0 s, poly = Poly3_new (ra s) (rb s) (rc s) (rd s)\<rparr>) segments)"

definition CubicSpline_addSegment ::
  "CubicSpline \<Rightarrow> real \<Rightarrow> real \<Rightarrow> real \<Rightarrow> real \<Rightarrow> real \<Rightarrow> CubicSpline" where
  "CubicSpline_addSegment seg k a b c d =
     sort_key s0 (seg @ [\<lparr>s0 = k, poly = Poly3_new a b c d\<rparr>])"

definition CubicSpline_empty :: "CubicSpline \<Rightarrow> bool" where
  "CubicSpline_empty seg = (length seg = 0)"

text \<open>
  The loop of \<open>get_poly\<close>: the candidate moves forward while \<open>s + 1e-12 >= sg.s0\<close> and
  the loop breaks at the first segment that starts later.
\<close>

fun get_poly_loop :: "real \<Rightarrow> Segment \<Rightarrow> Segment list \<Rightarrow> Segment" where
  "get_poly_loop s candidate [] = candidate"
| "get_poly_loop s candidate (sg # rest) =
     (if s + 1 / 10 ^ 12 \<ge> s0 sg then get_poly_loop s sg rest else candidate)"

definition CubicSpline_get_poly :: "CubicSpline \<Rightarrow> real \<Rightarrow> bool \<Rightarrow> Segment" where
  "CubicSpline_get_poly seg s extendStart =
     (case seg of
        [] \<Rightarrow> \<lparr>s0 = s, poly = Poly3_new 0 0 0 0\<rparr>
      | first # _ \<Rightarrow>
          (let candidate = get_poly_loop s first seg
           in if s + 1 / 10 ^ 12 \<ge> s0 candidate then candidate
              else if extendStart then first else candidate))"

definition CubicSpline_get :: "CubicSpline \<Rightarrow> real \<Rightarrow> real \<Rightarrow> real" where
  "CubicSpline_get seg s def =
     (if length seg = 0 then def
      else (let sg = CubicSpline_get_poly seg s True
            in Poly3_value (poly sg) (s - s0 sg)))"

definition CubicSpline_negate :: "CubicSpline \<Rightarrow> CubicSpline" where
  "CubicSpline_negate seg = map (\<lambda>sg. \<lparr>s0 = s0 sg, poly = Poly3_negate (poly sg)\<rparr>) seg"

text \<open>
  \<open>add\<close>: the knots of both operands go through a \<open>Set\<close> (duplicates dropped) and are
  sorted ascending; at each knot both operands' segments are looked up with
  \<open>extendStart\<close>, rebased to the knot and summed, and the sum is appended with
  \<open>addSegment\<close>.
\<close>

definition add_ticks :: "CubicSpline \<Rightarrow> CubicSpline \<Rightarrow> real list" where
  "add_ticks A B = sort (remdups (map s0 A @ map s0 B))"

definition add_segment_at :: "CubicSpline \<Rightarrow> CubicSpline \<Rightarrow> real \<Rightarrow> Poly3" where
  "add_segment_at A B k =
     (let aP = CubicSpline_get_poly A k True;
          bP = CubicSpline_get_poly B k True;
          deltaA = k - s0 aP;
          deltaB = k - s0 bP;
          pA = Poly3_rebase (poly aP) deltaA;
          pB = Poly3_rebase (poly bP) deltaB
      in Poly3_add pA pB)"

definition CubicSpline_add :: "CubicSpline \<Rightarrow> CubicSpline \<Rightarrow> CubicSpline" where
  "CubicSpline_add A B =
     (let ticks = add_ticks A B
      in if length ticks = 0 then []
         else foldl (\<lambda>out k. let p = add_segment_at A B k
                             in CubicSpline_addSegment out k (pa p) (pb p) (pc p) (pd p))
                    [] ticks)"

section \<open>Sampling of planView primitives (src/xodr/geometry.js)\<close>

text \<open>
  A sample is the array \<open>[x, y, theta, s]\<close>. A geometry primitive carries
  \<open>s, x, y, hdg, length\<close> and a \<open>type\<close> string with the parameters of that type; the
  parser produces the four types \<open>line\<close>, \<open>arc\<close>, \<open>spiral\<close> and \<open>poly3\<close>.
  The source reads the parameters as \<open>Number(v) || 0\<close>, which is the identity on a number.
\<close>

type_synonym Sample = "real \<times> real \<times> real \<times> real"

datatype GeomType =
    GLine
  | GArc (curvature: real)
  | GSpiral (curvStart: real) (curvEnd: real)
  | GPoly3 (aU: real) (bU: real) (cU: real) (dU: real) (aV: real) (bV: real) (cV: real) (dV: real)

record Geometry =
  geom_s :: real
  geom_x :: real
  geom_y :: real
  geom_hdg :: real
  geom_length :: real
  geom_type :: GeomType

text \<open>\<open>Math.atan2(y, x)\<close>, with \<open>atan2(0, 0) = 0\<close>.\<close>

definition atan2 :: "real \<Rightarrow> real \<Rightarrow> real" where
  "atan2 y x =
     (if x > 0 then arctan (y / x)
      else if x < 0 \<and> y \<ge> 0 then arctan (y / x) + pi
      else if x < 0 \<and> y < 0 then arctan (y / x) - pi
      else if y > 0 then pi / 2
      else if y < 0 then - pi / 2
      else 0)"

text \<open>The straight-line loop of \<open>sampleSegment\<close>: \<open>for (i = 0; i <= n; i++)\<close>.\<close>

definition line_samples :: "real \<Rightarrow> real \<Rightarrow> real \<Rightarrow> nat \<Rightarrow> real \<Rightarrow> Sample list" where
  "line_samples x y hdg n ds =
     map (\<lambda>i. let s = real i * ds;
                   px = x + s * cos hdg;
                   py = y + s * sin hdg;
                   th = hdg
               in (px, py, th, s)) [0..<Suc n]"

definition arc_samples :: "real \<Rightarrow> real \<Rightarrow> real \<Rightarrow> real \<Rightarrow> nat \<Rightarrow> real \<Rightarrow> Sample list" where
  "arc_samples x y hdg k n ds =
     (let invk = 1 / k
      in map (\<lambda>i. let s = real i * ds;
                       th = hdg + k * s;
                       px = x + (sin th - sin hdg) * invk;
                       py = y - (cos th - cos hdg) * invk
                   in (px, py, th, s)) [0..<Suc n])"

text \<open>
  The spiral branch of \<open>sampleSegment\<close>: midpoint integration, the position carried from
  one step to the next.
\<close>

definition spiral_midpoint_samples ::
  "real \<Rightarrow> real \<Rightarrow> real \<Rightarrow> real \<Rightarrow> real \<Rightarrow> nat \<Rightarrow> real \<Rightarrow> Sample list" where
  "spiral_midpoint_samples x y hdg k0 dk n ds =
     snd (snd (foldl
       (\<lambda>(px, py, pts) i.
          let s1 = (real i - 1) * ds;
              s2 = real i * ds;
              th1 = hdg + k0 * s1 + 0.5 * dk * s1 * s1;
              th2 = hdg + k0 * s2 + 0.5 * dk * s2 * s2;
              thm = 0.5 * (th1 + th2);
              dx = ds * cos thm;
              dy = ds * sin thm;
              px' = px + dx;
              py' = py + dy
          in (px', py', pts @ [(px', py', th2, s2)]))
       (x, y, [(x, y, hdg, 0)]) [1..<Suc n]))"

definition poly3_point ::
  "real \<Rightarrow> real \<Rightarrow> real \<Rightarrow> GeomType \<Rightarrow> real \<Rightarrow> Sample" where
  "poly3_point x y hdg t s =
     (let cosH = cos hdg; sinH = sin hdg;
          u = aU t + bU t * s + cU t * s * s + dU t * s * s * s;
          v = aV t + bV t * s + cV t * s * s + dV t * s * s * s;
          lx = u * cosH - v * sinH;
          ly = u * sinH + v * cosH;
          du = bU t + 2 * cU t * s + 3 * dU t * s * s;
          dv = bV t + 2 * cV t * s + 3 * dV t * s * s;
          tx = du * cosH - dv * sinH;
          ty = du * sinH + dv * cosH;
          th = atan2 ty tx
      in (x + lx, y + ly, th, s))"

text \<open>
  \<open>sampleSegment(geom, step)\<close>. With \<open>step = 0\<close> the source computes \<open>n = Infinity\<close> and its
  loop never ends; the model returns \<open>None\<close> there.
\<close>

definition sampleSegment :: "Geometry \<Rightarrow> real \<Rightarrow> Sample list option" where
  "sampleSegment geom step =
     (let x = geom_x geom; y = geom_y geom; hdg = geom_hdg geom; len = geom_length geom
      in if len \<le> 0 then Some []
         else if step = 0 then None
         else
           (let n = nat (max 1 \<lceil>len / step\<rceil>);
                ds = len / real n
            in case geom_type geom of
                 GLine \<Rightarrow> Some (line_samples x y hdg n ds)
               | GArc k \<Rightarrow>
                   if \<bar>k\<bar> < 1 / 10 ^ 12 then Some (line_samples x y hdg n ds)
                   else Some (arc_samples x y hdg k n ds)
               | GSpiral k0 k1 \<Rightarrow>
                   (let dk = (k1 - k0) / len
                    in Some (spiral_midpoint_samples x y hdg k0 dk n ds))
               | GPoly3 _ _ _ _ _ _ _ _ \<Rightarrow>
                   Some (map (\<lambda>i. poly3_point x y hdg (geom_type geom) (real i * ds)) [0..<Suc n])))"

text \<open>
  Options of the adaptive sampler: \<open>opts.baseStep || 0.7\<close> and \<open>opts.maxAngle || 0.03\<close>
  take the default when the field is absent or zero.
\<close>

record SampleOpts =
  baseStep :: "real option"
  maxAngle :: "real option"

definition or_default :: "real option \<Rightarrow> real \<Rightarrow> real" where
  "or_default v dflt = (case v of None \<Rightarrow> dflt | Some r \<Rightarrow> if r = 0 then dflt else r)"

text \<open>The step of the adaptive spiral loop, and one Runge-Kutta step of \<open>[x, y, theta]\<close>.\<close>

definition spiral_step_size :: "real \<Rightarrow> real \<Rightarrow> real \<Rightarrow> real \<Rightarrow> real \<Rightarrow> real \<Rightarrow> real" where
  "spiral_step_size k0 dk L bStep mAngle s =
     (let a = 0.5 * \<bar>dk\<bar>;
          b = \<bar>k0 + dk * s\<bar>;
          h = bStep;
          h = (if a > 1 / 10 ^ 12 then
                 (let disc = max 0 (b * b + 4 * a * mAngle)
                  in min h ((- b + sqrt disc) / (2 * a)))
               else if b > 1 / 10 ^ 12 then min h (mAngle / b)
               else h)
      in max 0.05 (min h (L - s)))"

definition rk4_step ::
  "real \<Rightarrow> real \<Rightarrow> real \<Rightarrow> real \<Rightarrow> real \<times> real \<times> real \<Rightarrow> real \<times> real \<times> real" where
  "rk4_step k0 dk s h st =
     (let kfun = (\<lambda>ss. k0 + dk * ss);
          f = (\<lambda>ss (sx, sy, theta). (cos theta, sin theta, kfun ss));
          st0 = fst st; st1 = fst (snd st); st2 = snd (snd st);
          k1v = f s st;
          k2v = f (s + 0.5 * h)
                  (st0 + 0.5 * h * fst k1v, st1 + 0.5 * h * fst (snd k1v), st2 + 0.5 * h * snd (snd k1v));
          k3v = f (s + 0.5 * h)
                  (st0 + 0.5 * h * fst k2v, st1 + 0.5 * h * fst (snd k2v), st2 + 0.5 * h * snd (snd k2v));
          k4v = f (s + h)
                  (st0 + h * fst k3v, st1 + h * fst (snd k3v), st2 + h * snd (snd k3v));
          px = st0 + (h / 6) * (fst k1v + 2 * fst k2v + 2 * fst k3v + fst k4v);
          py = st1 + (h / 6) * (fst (snd k1v) + 2 * fst (snd k2v) + 2 * fst (snd k3v) + fst (snd k4v));
          th = st2 + (h / 6) * (snd (snd k1v) + 2 * snd (snd k2v) + 2 * snd (snd k3v) + snd (snd k4v))
      in (px, py, th))"

text \<open>
  The loop \<open>while (s < L - 1e-9)\<close> of the spiral branch. Every step is at least \<open>0.05\<close>
  long, which is the termination argument.
\<close>

lemma spiral_step_size_ge: "spiral_step_size k0 dk L bStep mAngle s \<ge> 0.05"
  unfolding spiral_step_size_def Let_def by (rule max.cobounded1)

lemma spiral_measure_decreases:
  fixes s L h :: real
  assumes "s < L - 1 / 10 ^ 9" and "h \<ge> 0.05"
  shows "nat \<lceil>(L - (s + h)) * 20\<rceil> < nat \<lceil>(L - s) * 20\<rceil>"
proof -
  have "(L - (s + h)) * 20 \<le> (L - s) * 20 - 1" using assms(2) by simp
  then have "\<lceil>(L - (s + h)) * 20\<rceil> \<le> \<lceil>(L - s) * 20 - 1\<rceil>" by (rule ceiling_mono)
  then have le: "\<lceil>(L - (s + h)) * 20\<rceil> \<le> \<lceil>(L - s) * 20\<rceil> - 1" by simp
  have "0 < (L - s) * 20" using assms(1) by simp
  then have "0 < \<lceil>(L - s) * 20\<rceil>" by (simp add: ceiling_less_iff)
  with le show ?thesis by linarith
qed

function spiral_loop ::
  "real \<Rightarrow> real \<Rightarrow> real \<Rightarrow> real \<Rightarrow> real \<Rightarrow> real \<Rightarrow> real \<times> real \<times> real \<Rightarrow> Sample list
     \<Rightarrow> Sample list" where
  "spiral_loop k0 dk L bStep mAngle s st pts =
     (if s < L - 1 / 10 ^ 9 then
        (let h = spiral_step_size k0 dk L bStep mAngle s;
             st' = rk4_step k0 dk s h st
         in spiral_loop k0 dk L bStep mAngle (s + h) st'
              (pts @ [(fst st', fst (snd st'), snd (snd st'), s + h)]))
      else pts)"
  by pat_completeness auto
termination
  apply (relation "measure (\<lambda>(k0, dk, L, bStep, mAngle, s, st, pts). nat \<lceil>(L - s) * 20\<rceil>)")
   apply (rule wf_measure)
  apply (simp only: in_measure prod.case)
  apply (rule spiral_measure_decreases)
   apply assumption
  apply (simp only: spiral_step_size_ge)
  done

declare spiral_loop.simps [simp del]

text \<open>
  The loop \<open>while (s < L + 1e-9)\<close> of the poly3 branch. Its step has no positive lower
  bound in the source, so the loop is a partial function: \<open>None\<close> is not returning.
\<close>

definition poly3_step_size :: "GeomType \<Rightarrow> real \<Rightarrow> real \<Rightarrow> real \<Rightarrow> real \<Rightarrow> real \<Rightarrow> real" where
  "poly3_step_size t hdg L bStep mAngle s =
     (let cosH = cos hdg; sinH = sin hdg;
          du = bU t + 2 * cU t * s + 3 * dU t * s * s;
          dv = bV t + 2 * cV t * s + 3 * dV t * s * s;
          d2u = 2 * cU t + 6 * dU t * s;
          d2v = 2 * cV t + 6 * dV t * s;
          tx = du * cosH - dv * sinH;
          ty = du * sinH + dv * cosH;
          denom = (tx * tx + ty * ty) powr 1.5;
          ax = d2u * cosH - d2v * sinH;
          ay = d2u * sinH + d2v * cosH;
          curv = (if denom > 1 / 10 ^ 9 then \<bar>(tx * ay - ty * ax) / denom\<bar> else 0);
          dsAngle = (if curv > 1 / 10 ^ 9 then mAngle / curv else L)
      in min (min (max 0.2 bStep) dsAngle) (L - s))"

partial_function (option) poly3_loop ::
  "Geometry \<Rightarrow> real \<Rightarrow> real \<Rightarrow> real \<Rightarrow> Sample list \<Rightarrow> Sample list option" where
  "poly3_loop geom bStep mAngle s pts =
     (if s < geom_length geom + 1 / 10 ^ 9 then
        (let pts' = pts @ [poly3_point (geom_x geom) (geom_y geom) (geom_hdg geom) (geom_type geom) s]
         in if s \<ge> geom_length geom then Some pts'
            else poly3_loop geom bStep mAngle
                   (let s' = s + poly3_step_size (geom_type geom) (geom_hdg geom) (geom_length geom)
                                   bStep mAngle s
                    in if s' > geom_length geom then geom_length geom else s')
                   pts')
      else Some pts)"

text \<open>The arc-length tag \<open>p[3]\<close> of a sample.\<close>

definition sample_s :: "Sample \<Rightarrow> real" where
  "sample_s p = snd (snd (snd p))"

definition sampleSegmentAdaptive :: "Geometry \<Rightarrow> SampleOpts \<Rightarrow> Sample list option" where
  "sampleSegmentAdaptive geom opts =
     (let x = geom_x geom; y = geom_y geom; hdg = geom_hdg geom;
          L = geom_length geom
      in if \<not> (L > 0) then Some []
         else
           (let bStep = max 0.2 (or_default (baseStep opts) 0.7);
                mAngle = max 0.005 (or_default (maxAngle opts) 0.03)
            in case geom_type geom of
                 GLine \<Rightarrow> sampleSegment (geom\<lparr>geom_type := GLine\<rparr>) bStep
               | GArc k \<Rightarrow>
                   (let dsAngle = (if \<bar>k\<bar> > 1 / 10 ^ 12 then mAngle / \<bar>k\<bar> else L);
                        ds = min bStep dsAngle
                    in sampleSegment (geom\<lparr>geom_type := GArc k\<rparr>) ds)
               | GSpiral k0 k1 \<Rightarrow>
                   (let dk = (k1 - k0) / L
                    in Some (spiral_loop k0 dk L bStep mAngle 0 (x, y, hdg) [(x, y, hdg, 0)]))
               | GPoly3 _ _ _ _ _ _ _ _ \<Rightarrow>
                   (case poly3_loop geom bStep mAngle 0 [] of
                      None \<Rightarrow> None
                    | Some pts \<Rightarrow>
                        if length pts = 0 \<or> sample_s (last pts) < L
                        then Some (pts @ [poly3_point x y hdg (geom_type geom) L])
                        else Some pts)))"

text \<open>
  \<open>sampleGeometrySequence\<close>: the samples of each primitive, shifted to absolute arc
  length, the first sample of every primitive after the first non-empty one dropped.
\<close>

fun sampleGeometrySequence_loop ::
  "SampleOpts \<Rightarrow> Sample list \<Rightarrow> Geometry list \<Rightarrow> Sample list option" where
  "sampleGeometrySequence_loop opts out [] = Some out"
| "sampleGeometrySequence_loop opts out (g # geoms) =
     (case sampleSegmentAdaptive g opts of
        None \<Rightarrow> None
      | Some pts0 \<Rightarrow>
          (let baseS = geom_s g;
               pts = map (\<lambda>(px, py, th, s). (px, py, th, baseS + s)) pts0;
               pts = (if length out \<noteq> 0 \<and> length pts \<noteq> 0 then tl pts else pts)
           in sampleGeometrySequence_loop opts (out @ pts) geoms))"

definition sampleGeometrySequence :: "Geometry list \<Rightarrow> real option \<Rightarrow> real option \<Rightarrow> Sample list option" where
  "sampleGeometrySequence geoms step mxAngle =
     (let bStep = or_default step 0.7;
          mAngle = or_default mxAngle 0.03
      in sampleGeometrySequence_loop \<lparr>baseStep = Some bStep, maxAngle = Some mAngle\<rparr> [] geoms)"

text \<open>
  \<open>toPolygon\<close>: the ring of the polygon feature, closed by repeating its first point
  \<open>left[0]\<close>. An entry of the ring is a projected point or \<open>undefined\<close>: for an empty
  \<open>leftSamples\<close> the closing entry \<open>left[0]\<close> is \<open>undefined\<close>, the \<open>None\<close> of the model.
\<close>

definition toPolygon ::
  "Sample list \<Rightarrow> Sample list \<Rightarrow> (real \<times> real \<Rightarrow> 'c) \<Rightarrow> 'c option list" where
  "toPolygon leftSamples rightSamples projector =
     (let left = map (\<lambda>(x, y, th, s). projector (x, y)) leftSamples;
          right = rev (map (\<lambda>(x, y, th, s). projector (x, y)) rightSamples);
          ring = map Some left @ map Some right @ [case left of [] \<Rightarrow> None | p # _ \<Rightarrow> Some p]
      in ring)"

definition toLineString :: "Sample list \<Rightarrow> (real \<times> real \<Rightarrow> 'c) \<Rightarrow> 'c list" where
  "toLineString samples projector = map (\<lambda>(x, y, th, s). projector (x, y)) samples"

definition offsetPolyline :: "Sample list \<Rightarrow> real \<Rightarrow> Sample list" where
  "offsetPolyline samples offset =
     map (\<lambda>(x, y, th, s). let nx = - sin th; ny = cos th
                            in (x + nx * offset, y + ny * offset, th, s)) samples"

section \<open>Corner rounding of an editable axis (src/editor.js)\<close>

text \<open>
  An axis is a feature with an id and a coordinate list \<open>[lng, lat]\<close>. The projector
  of the map (\<open>map.project\<close>, \<open>map.unproject\<close>) is not part of the repository and is
  taken as the two parameters \<open>toPx\<close> and \<open>toLL\<close>. A pixel point is \<open>{x, y}\<close>.
\<close>

type_synonym LngLat = "real \<times> real"
type_synonym Px = "real \<times> real"

record Feature =
  feat_id :: string
  coordinates :: "LngLat list"

text \<open>
  \<open>roundingByAxis\<close>: a \<open>Map\<close> from the axis id to an object that maps a vertex index
  to its rounding factor. The object is an association list, read with \<open>map_of\<close>.
\<close>

type_synonym RoundTable = "(nat \<times> real) list"
type_synonym RoundingByAxis = "string \<Rightarrow> RoundTable option"

definition getRoundK :: "RoundingByAxis \<Rightarrow> string \<Rightarrow> nat \<Rightarrow> real" where
  "getRoundK roundingByAxis axisId idx =
     (case roundingByAxis axisId of
        None \<Rightarrow> 1
      | Some m \<Rightarrow> (case map_of m idx of None \<Rightarrow> 1 | Some v \<Rightarrow> v))"

text \<open>The vector helpers that \<open>smoothAxisCoords\<close> and \<open>tangentLengthAt\<close> declare locally.\<close>

definition vsub :: "Px \<Rightarrow> Px \<Rightarrow> Px" where
  "vsub a b = (fst a - fst b, snd a - snd b)"

definition vadd :: "Px \<Rightarrow> Px \<Rightarrow> Px" where
  "vadd a b = (fst a + fst b, snd a + snd b)"

definition vmul :: "Px \<Rightarrow> real \<Rightarrow> Px" where
  "vmul a k = (fst a * k, snd a * k)"

definition vlen :: "Px \<Rightarrow> real" where
  "vlen v = sqrt (fst v * fst v + snd v * snd v)"

definition vnorm :: "Px \<Rightarrow> Px" where
  "vnorm v = (let L = vlen v in if L > 1 / 10 ^ 9 then (fst v / L, snd v / L) else (0, 0))"

definition leftN :: "Px \<Rightarrow> Px" where
  "leftN v = (- snd v, fst v)"

definition vdot :: "Px \<Rightarrow> Px \<Rightarrow> real" where
  "vdot a b = fst a * fst b + snd a * snd b"

definition crossZ :: "Px \<Rightarrow> Px \<Rightarrow> real" where
  "crossZ a b = fst a * snd b - snd a * fst b"

text \<open>
  \<open>Math.tan(alpha / 2)\<close> for an angle \<open>alpha\<close> that \<open>Math.acos\<close> returned. The tangent of
  the reals has a pole where \<open>alpha\<close> is \<open>\<pi>\<close>, at an exact U-turn; the code computes
  there with the double nearest to \<open>\<pi>/2\<close>, whose tangent is the finite number
  16331239353195370. \<open>tangentLengthAt\<close> can reach that angle. \<open>smoothAxisCoords\<close> cannot:
  at a U-turn its \<open>turn\<close> is 0 and it leaves the vertex before it takes the tangent.
\<close>

definition tanHalfAngle :: "real \<Rightarrow> real" where
  "tanHalfAngle alpha = (if alpha = pi then 16331239353195370 else tan (alpha / 2))"

text \<open>
  \<open>tangentLengthAt(coords, idx, axisId)\<close>: the tangent length a vertex asks for, clamped
  to \<open>0.49\<close> of its shorter edge, with no floor. \<open>tangentLengthAtLL\<close> is the same
  function with the arguments in another order.
\<close>

definition tangentLengthAt ::
  "(LngLat \<Rightarrow> Px) \<Rightarrow> RoundingByAxis \<Rightarrow> LngLat list \<Rightarrow> nat \<Rightarrow> string \<Rightarrow> real" where
  "tangentLengthAt toPx roundingByAxis coords idx axisId =
     (if idx \<le> 0 \<or> idx + 1 \<ge> length coords then 0
      else
        (let P0 = toPx (coords ! (idx - 1));
             P1 = toPx (coords ! idx);
             P2 = toPx (coords ! (idx + 1));
             v0 = vnorm (vsub P1 P0);
             v1 = vnorm (vsub P2 P1);
             c = fst v0 * fst v1 + snd v0 * snd v1;
             alpha = arccos (max (- 1) (min 1 c))
         in if \<not> (alpha > 1 / 10 ^ 3) then 0
            else
              (let tanHalf = tanHalfAngle alpha
               in if \<not> (tanHalf > 1 / 10 ^ 6) then 0
                  else
                    (let Lprev = vlen (vsub P1 P0);
                         Lnext = vlen (vsub P2 P1);
                         minLen = min Lprev Lnext;
                         k = getRoundK roundingByAxis axisId idx;
                         t_goal = (max 0 (min 1 k) * minLen / alpha) * tanHalf;
                         t_max_base = 0.49 * minLen
                     in max 0 (min t_goal t_max_base)))))"

definition tangentLengthAtLL ::
  "(LngLat \<Rightarrow> Px) \<Rightarrow> RoundingByAxis \<Rightarrow> string \<Rightarrow> LngLat list \<Rightarrow> nat \<Rightarrow> real" where
  "tangentLengthAtLL toPx roundingByAxis axisId axisCoordsLL idx =
     tangentLengthAt toPx roundingByAxis axisCoordsLL idx axisId"

text \<open>
  The two loops that bring the end angle of the arc to the right side of the start
  angle: \<open>while (end < start) end += 2*PI\<close> and \<open>while (end > start) end -= 2*PI\<close>.
\<close>

lemma wrap_measure_decreases:
  fixes d :: real
  assumes "0 < d"
  shows "nat \<lceil>(d - 2 * pi) / (2 * pi)\<rceil> < nat \<lceil>d / (2 * pi)\<rceil>"
proof -
  have "(d - 2 * pi) / (2 * pi) = d / (2 * pi) - 1"
    by (simp add: diff_divide_distrib)
  then have "\<lceil>(d - 2 * pi) / (2 * pi)\<rceil> = \<lceil>d / (2 * pi)\<rceil> - 1" by simp
  moreover have "0 < d / (2 * pi)" using assms by simp
  then have "0 < \<lceil>d / (2 * pi)\<rceil>" by (simp add: ceiling_less_iff)
  ultimately show ?thesis by linarith
qed

function wrap_ccw :: "real \<Rightarrow> real \<Rightarrow> real" where
  "wrap_ccw start e = (if e < start then wrap_ccw start (e + 2 * pi) else e)"
  by pat_completeness auto
termination
  apply (relation "measure (\<lambda>(start, e). nat \<lceil>(start - e) / (2 * pi)\<rceil>)")
   apply (rule wf_measure)
  apply (simp only: in_measure prod.case)
  subgoal for start e
    using wrap_measure_decreases[of "start - e"] by (simp add: algebra_simps)
  done

declare wrap_ccw.simps [simp del]

function wrap_cw :: "real \<Rightarrow> real \<Rightarrow> real" where
  "wrap_cw start e = (if e > start then wrap_cw start (e - 2 * pi) else e)"
  by pat_completeness auto
termination
  apply (relation "measure (\<lambda>(start, e). nat \<lceil>(e - start) / (2 * pi)\<rceil>)")
   apply (rule wf_measure)
  apply (simp only: in_measure prod.case)
  subgoal for start e
    using wrap_measure_decreases[of "e - start"] by (simp add: algebra_simps)
  done

declare wrap_cw.simps [simp del]

text \<open>
  The body of the loop of \<open>smoothAxisCoords\<close> for the internal vertex \<open>i\<close> of the
  projected polyline \<open>px\<close>, in three definitions. \<open>cornerTangent\<close> is the block that
  computes the tangent length \<open>t\<close> from the rounding factor \<open>k\<close>, the edge lengths
  \<open>l1, l2\<close>, the turn angle and the tangent lengths \<open>t_prevN, t_nextN\<close> of the
  neighbours. \<open>cornerArc\<close> is the block that builds the arc for that \<open>t\<close> and gives the
  points pushed for it: the tangent point \<open>T1\<close>, the \<open>steps - 1\<close> points on the arc and
  the tangent point \<open>T2\<close>. \<open>roundCorner\<close> is the body: \<open>None\<close> is the branch that keeps
  the vertex (\<open>out.push(toLL(P1)); continue\<close>), \<open>Some (t, pts)\<close> the branch that rounds it.
  The index tests \<open>i-1 >= 1\<close> and \<open>i+1 <= px.length-2\<close> are written without subtraction.
\<close>

definition cornerTangent :: "real \<Rightarrow> real \<Rightarrow> real \<Rightarrow> real \<Rightarrow> real \<Rightarrow> real \<Rightarrow> real \<Rightarrow> real" where
  "cornerTangent k l1 l2 alpha tanHalf t_prevN t_nextN =
     (let Ltarget = max 0 (min 1 k) * min l1 l2;
          R_by_len = Ltarget / alpha;
          t_goal = R_by_len * tanHalf;
          t_max_adj = max 0 (min (l1 - t_prevN) (l2 - t_nextN));
          t_max_base = 0.49 * min l1 l2;
          t_max = max 0 (min t_max_base t_max_adj);
          t = max 1 (min t_goal t_max)
      in t)"

definition cornerArc ::
  "(Px \<Rightarrow> LngLat) \<Rightarrow> Px \<Rightarrow> Px \<Rightarrow> Px \<Rightarrow> real \<Rightarrow> real \<Rightarrow> real \<Rightarrow> LngLat list" where
  "cornerArc toLL P1 v0 v1 turn tanHalf t =
     (let R = t / tanHalf;
          T1 = vadd P1 (vmul v0 (- t));
          T2 = vadd P1 (vmul v1 t);
          n0 = leftN v0;
          n1 = leftN v1;
          C1 = vadd T1 (vmul n0 (turn * R));
          C2 = vadd T2 (vmul n1 (turn * R));
          C = vmul (vadd C1 C2) 0.5;
          a1 = atan2 (snd T1 - snd C) (fst T1 - fst C);
          a2 = atan2 (snd T2 - snd C) (fst T2 - fst C);
          start = a1;
          end' = (if turn > 0 then wrap_ccw start a2 else wrap_cw start a2);
          sArc = \<bar>(end' - start) * R\<bar>;
          segLen = 8;
          steps = nat (max 2 \<lceil>sArc / segLen\<rceil>)
      in [toLL T1]
         @ map (\<lambda>k. let ttheta = start + (end' - start) * (real k / real steps);
                          pt = (fst C + R * cos ttheta, snd C + R * sin ttheta)
                      in toLL pt) [1..<steps]
         @ [toLL T2])"

definition roundCorner ::
  "(LngLat \<Rightarrow> Px) \<Rightarrow> (Px \<Rightarrow> LngLat) \<Rightarrow> RoundingByAxis \<Rightarrow> Feature \<Rightarrow> nat
     \<Rightarrow> (real \<times> LngLat list) option" where
  "roundCorner toPx toLL roundingByAxis feat i =
     (let px = map toPx (coordinates feat);
          P0 = px ! (i - 1); P1 = px ! i; P2 = px ! (i + 1);
          v0 = vnorm (vsub P1 P0);
          v1 = vnorm (vsub P2 P1);
          l1 = vlen (vsub P1 P0);
          l2 = vlen (vsub P2 P1);
          c = vdot v0 v1;
          alpha = arccos (max (- 1) (min 1 c));
          turn = sgn (crossZ v0 v1)
      in if alpha < 1 / 10 ^ 3 \<or> turn = 0 then None
         else
           (let k = getRoundK roundingByAxis (feat_id feat) i;
                tanHalf = tan (alpha / 2)
            in if tanHalf \<le> 1 / 10 ^ 6 then None
               else
                 (let t_prevN = (if i \<ge> 2
                                 then tangentLengthAtLL toPx roundingByAxis (feat_id feat) (coordinates feat) (i - 1)
                                 else 0);
                      t_nextN = (if i + 3 \<le> length px
                                 then tangentLengthAtLL toPx roundingByAxis (feat_id feat) (coordinates feat) (i + 1)
                                 else 0);
                      t = cornerTangent k l1 l2 alpha tanHalf t_prevN t_nextN
                  in Some (t, cornerArc toLL P1 v0 v1 turn tanHalf t))))"

definition smoothAxisCoords ::
  "(LngLat \<Rightarrow> Px) \<Rightarrow> (Px \<Rightarrow> LngLat) \<Rightarrow> RoundingByAxis \<Rightarrow> Feature \<Rightarrow> LngLat list" where
  "smoothAxisCoords toPx toLL roundingByAxis feat =
     (let coords = coordinates feat
      in if length coords \<le> 2 then coords
         else
           (let px = map toPx coords
            in [toLL (px ! 0)]
               @ concat (map (\<lambda>i. case roundCorner toPx toLL roundingByAxis feat i of
                                      None \<Rightarrow> [toLL (px ! i)]
                                    | Some (t, pts) \<Rightarrow> pts)
                             [1..<length px - 1])
               @ [toLL (px ! (length px - 1))]))"

text \<open>
  The quantities the specification names for a vertex \<open>i\<close> of an axis, written in its
  words for comparison with \<open>roundCorner\<close>: the pixel length of the edge from vertex
  \<open>j\<close> to vertex \<open>j + 1\<close>, the turn angle from the unit tangents of the two edges at
  \<open>i\<close>, the target tangent length \<open>t_goal = (k * min(edgeLenPrev, edgeLenNext) / alpha) *
  tan(alpha/2)\<close> with \<open>k\<close> held in \<open>[0, 1]\<close>, and the bound \<open>t_max = min(0.49 *
  min(edgeLenPrev, edgeLenNext), edgeLenPrev - tangentLength(prevVertex), edgeLenNext -
  tangentLength(nextVertex))\<close>.
\<close>

definition edgeLen :: "(LngLat \<Rightarrow> Px) \<Rightarrow> LngLat list \<Rightarrow> nat \<Rightarrow> real" where
  "edgeLen toPx coords j = vlen (vsub (toPx (coords ! (j + 1))) (toPx (coords ! j)))"

definition turnAngle :: "(LngLat \<Rightarrow> Px) \<Rightarrow> LngLat list \<Rightarrow> nat \<Rightarrow> real" where
  "turnAngle toPx coords i =
     arccos (max (- 1) (min 1
       (vdot (vnorm (vsub (toPx (coords ! i)) (toPx (coords ! (i - 1)))))
             (vnorm (vsub (toPx (coords ! (i + 1))) (toPx (coords ! i)))))))"

definition t_goal_spec :: "(LngLat \<Rightarrow> Px) \<Rightarrow> RoundingByAxis \<Rightarrow> Feature \<Rightarrow> nat \<Rightarrow> real" where
  "t_goal_spec toPx roundingByAxis feat i =
     (max 0 (min 1 (getRoundK roundingByAxis (feat_id feat) i))
        * min (edgeLen toPx (coordinates feat) (i - 1)) (edgeLen toPx (coordinates feat) i)
        / turnAngle toPx (coordinates feat) i)
     * tan (turnAngle toPx (coordinates feat) i / 2)"

definition t_max_spec :: "(LngLat \<Rightarrow> Px) \<Rightarrow> RoundingByAxis \<Rightarrow> Feature \<Rightarrow> nat \<Rightarrow> real" where
  "t_max_spec toPx roundingByAxis feat i =
     min (0.49 * min (edgeLen toPx (coordinates feat) (i - 1)) (edgeLen toPx (coordinates feat) i))
         (min (edgeLen toPx (coordinates feat) (i - 1)
                 - tangentLengthAt toPx roundingByAxis (coordinates feat) (i - 1) (feat_id feat))
              (edgeLen toPx (coordinates feat) i
                 - tangentLengthAt toPx roundingByAxis (coordinates feat) (i + 1) (feat_id feat)))"

section \<open>Lane runs along a lane track (src/index.js, src/xodr/opendrive.js)\<close>

text \<open>
  The road model as \<open>buildGeometry\<close> reads it. Every numeric field is a number (the
  builder reads \<open>ls.s || 0\<close>, which is the identity on a number); lane ids are integers.
  Of a lane only the fields the lane runs depend on are kept (\<open>id\<close>, \<open>type\<close>,
  \<open>widths\<close> and the links), and of a road its lane sections and lane offsets.
\<close>

datatype Side = SideLeft | SideRight

record WidthRec =
  sOffset :: real
  wa :: real
  wb :: real
  wc :: real
  wd :: real

record Lane =
  lane_id :: int
  lane_type :: string
  widths :: "WidthRec list"
  predecessor :: "int option"
  successor :: "int option"

record LaneSection =
  sec_s :: real
  sec_left :: "Lane list"
  sec_center :: "Lane list"
  sec_right :: "Lane list"

record OffsetRec =
  lo_s :: real
  lo_a :: real
  lo_b :: real
  lo_c :: real
  lo_d :: real

record Road =
  laneSections :: "LaneSection list"
  laneOffsets :: "OffsetRec list"

record TrackNode =
  node_si :: nat
  node_id :: int
  node_pred :: "int option"
  node_succ :: "int option"
  node_type :: string

record Track =
  track_side :: Side
  track_nodes :: "TrackNode list"

text \<open>\<open>const EPS = 0.005\<close>: the width below which a lane counts as vanished.\<close>

definition EPS :: real where
  "EPS = 0.005"

text \<open>
  \<open>laneWidthAt(widths, sInSection)\<close> (opendrive.js): the last width record whose
  \<open>sOffset\<close> is at most \<open>sInSection + 1e-9\<close>, the first one when there is none,
  evaluated as a cubic in \<open>ds = sInSection - sOffset\<close>; 0 for an empty list.
\<close>

fun laneWidthAt_loop :: "real \<Rightarrow> WidthRec \<Rightarrow> WidthRec list \<Rightarrow> WidthRec" where
  "laneWidthAt_loop sInSection seg [] = seg"
| "laneWidthAt_loop sInSection seg (w # ws) =
     laneWidthAt_loop sInSection (if sInSection + 1 / 10 ^ 9 \<ge> sOffset w then w else seg) ws"

definition laneWidthAt :: "WidthRec list \<Rightarrow> real \<Rightarrow> real" where
  "laneWidthAt ws sInSection =
     (case ws of
        [] \<Rightarrow> 0
      | w0 # _ \<Rightarrow>
          (let seg = laneWidthAt_loop sInSection w0 ws;
               ds = sInSection - sOffset seg
           in wa seg + wb seg * ds + wc seg * ds * ds + wd seg * ds * ds * ds))"

text \<open>
  \<open>sectionAt(s)\<close> together with \<open>road.laneSections.indexOf(sec)\<close>: the index of the last
  lane section that starts at or before \<open>s + 1e-9\<close>, index 0 when there is none, and
  \<open>None\<close> (the source's \<open>null\<close>, index \<open>-1\<close>) for a road without lane sections. The
  source finds the index by object identity, so the model carries the index.
\<close>

fun sectionAt_loop :: "real \<Rightarrow> nat \<Rightarrow> nat \<Rightarrow> LaneSection list \<Rightarrow> nat" where
  "sectionAt_loop s sec k [] = sec"
| "sectionAt_loop s sec k (ls # rest) =
     sectionAt_loop s (if s + 1 / 10 ^ 9 \<ge> sec_s ls then k else sec) (Suc k) rest"

definition sectionAt :: "Road \<Rightarrow> real \<Rightarrow> nat option" where
  "sectionAt road s =
     (if laneSections road = [] then None
      else Some (sectionAt_loop s 0 0 (laneSections road)))"

fun laneOffsetAt_loop :: "real \<Rightarrow> OffsetRec \<Rightarrow> OffsetRec list \<Rightarrow> OffsetRec" where
  "laneOffsetAt_loop s rec [] = rec"
| "laneOffsetAt_loop s rec (r # rs) =
     laneOffsetAt_loop s (if s + 1 / 10 ^ 9 \<ge> lo_s r then r else rec) rs"

definition laneOffsetAt :: "Road \<Rightarrow> real \<Rightarrow> real" where
  "laneOffsetAt road s =
     (case laneOffsets road of
        [] \<Rightarrow> 0
      | r0 # _ \<Rightarrow>
          (let rec = laneOffsetAt_loop s r0 (laneOffsets road);
               ds = s - lo_s rec
           in lo_a rec + lo_b rec * ds + lo_c rec * ds * ds + lo_d rec * ds * ds * ds))"

definition interpPoint :: "Sample \<Rightarrow> Sample \<Rightarrow> real \<Rightarrow> Sample" where
  "interpPoint p1 p2 t =
     (case (p1, p2) of
        ((x1, y1, th1, s1), (x2, y2, th2, s2)) \<Rightarrow>
          (x1 + (x2 - x1) * t, y1 + (y2 - y1) * t, th1 + (th2 - th1) * t, s1 + (s2 - s1) * t))"

definition offsetPoint :: "Sample \<Rightarrow> real \<Rightarrow> Sample" where
  "offsetPoint sample offset =
     (case sample of
        (x, y, th, s) \<Rightarrow>
          (let nx = - sin th; ny = cos th
           in (x + nx * offset, y + ny * offset, th, s)))"

text \<open>
  \<open>sec?.[side] || []\<close> and \<open>sec?.s || 0\<close> for the section with index \<open>sio\<close>, and the
  node of the track in that section, \<open>track.nodes.find(n => n.si === si)\<close>.
\<close>

definition sectionLanes :: "Road \<Rightarrow> Side \<Rightarrow> nat option \<Rightarrow> Lane list" where
  "sectionLanes road side sio =
     (case sio of
        None \<Rightarrow> []
      | Some si \<Rightarrow> (case side of
                      SideLeft \<Rightarrow> sec_left (laneSections road ! si)
                    | SideRight \<Rightarrow> sec_right (laneSections road ! si)))"

definition sectionStart :: "Road \<Rightarrow> nat option \<Rightarrow> real" where
  "sectionStart road sio = (case sio of None \<Rightarrow> 0 | Some si \<Rightarrow> sec_s (laneSections road ! si))"

definition trackNodeAt :: "Track \<Rightarrow> nat option \<Rightarrow> TrackNode option" where
  "trackNodeAt track sio =
     (case sio of None \<Rightarrow> None | Some si \<Rightarrow> find (\<lambda>n. node_si n = si) (track_nodes track))"

text \<open>
  The width of the lane \<open>laneId\<close> at arc length \<open>s\<close> in the section \<open>sio\<close>
  (\<open>laneWidthAt(thisLane?.widths || [], s - (sec?.s || 0))\<close>) and the lateral offset of
  its outer boundary: the lane offset plus the widths of the lanes up to it on the left,
  minus them on the right, where the lanes are first sorted by id. The source has this
  block three times in \<open>buildLaneRunsTrack\<close>: for the current sample and, in the two
  boundary blocks, for the previous sample.
\<close>

definition laneWidthIn :: "Road \<Rightarrow> Side \<Rightarrow> nat option \<Rightarrow> int \<Rightarrow> real \<Rightarrow> real" where
  "laneWidthIn road side sio laneId s =
     (let thisLane = find (\<lambda>w. lane_id w = laneId) (sectionLanes road side sio)
      in laneWidthAt (case thisLane of None \<Rightarrow> [] | Some lane \<Rightarrow> widths lane)
           (s - sectionStart road sio))"

definition outerOffsetIn :: "Road \<Rightarrow> Side \<Rightarrow> nat option \<Rightarrow> int \<Rightarrow> real \<Rightarrow> real" where
  "outerOffsetIn road side sio laneId s =
     (case side of
        SideLeft \<Rightarrow>
          foldl (\<lambda>outer lane. let w = laneWidthAt (widths lane) (s - sectionStart road sio)
                            in if lane_id lane \<le> laneId then outer + w else outer)
                (laneOffsetAt road s) (sectionLanes road side sio)
      | SideRight \<Rightarrow>
          foldl (\<lambda>outer lane. let w = laneWidthAt (widths lane) (s - sectionStart road sio)
                            in if lane_id lane \<ge> laneId then outer - w else outer)
                (laneOffsetAt road s) (sort_key lane_id (sectionLanes road side sio)))"

text \<open>
  The boundary block of \<open>buildLaneRunsTrack\<close>, the same code where a run opens and where
  it closes: between the samples \<open>i - 1\<close> and \<open>i\<close> the point where the width, taken as
  linear between the two samples, equals \<open>EPS\<close>. It yields the pair pushed to
  \<open>runOuter\<close> and \<open>runInner\<close>. \<open>boundaryParam\<close> is its interpolation parameter \<open>t\<close>.
\<close>

definition boundaryWidth0 :: "Road \<Rightarrow> Sample list \<Rightarrow> Track \<Rightarrow> nat \<Rightarrow> TrackNode \<Rightarrow> real" where
  "boundaryWidth0 road samples track i node =
     (let s0 = sample_s (samples ! (i - 1));
          sio0 = sectionAt road s0;
          node0 = (case trackNodeAt track sio0 of None \<Rightarrow> node | Some n \<Rightarrow> n)
      in laneWidthIn road (track_side track) sio0 (node_id node0) s0)"

definition boundaryParam :: "Road \<Rightarrow> Sample list \<Rightarrow> Track \<Rightarrow> nat \<Rightarrow> TrackNode \<Rightarrow> real \<Rightarrow> real" where
  "boundaryParam road samples track i node wCur =
     (let w0 = boundaryWidth0 road samples track i node
      in if wCur - w0 \<noteq> 0 then (EPS - w0) / (wCur - w0) else 0)"

definition boundaryPair ::
  "Road \<Rightarrow> Sample list \<Rightarrow> Track \<Rightarrow> nat \<Rightarrow> TrackNode \<Rightarrow> real \<Rightarrow> real \<Rightarrow> Sample \<times> Sample" where
  "boundaryPair road samples track i node wCur outer =
     (let side = track_side track;
          s0 = sample_s (samples ! (i - 1));
          sio0 = sectionAt road s0;
          node0 = (case trackNodeAt track sio0 of None \<Rightarrow> node | Some n \<Rightarrow> n);
          t = boundaryParam road samples track i node wCur;
          sp = interpPoint (samples ! (i - 1)) (samples ! i) t;
          offPrevOuter = outerOffsetIn road side sio0 (node_id node0) s0;
          offOuterInterp = offPrevOuter + (outer - offPrevOuter) * t
      in (offsetPoint sp offOuterInterp,
          offsetPoint sp (if side = SideLeft then offOuterInterp - EPS else offOuterInterp + EPS)))"

text \<open>
  A lane polygon feature: its ring and, of its properties, the side, the lane id
  (\<open>'track'\<close> where a run ends because the track has no node, \<open>undefined\<close> for a track
  without nodes), the lane type and the arc lengths \<open>s0, s1\<close> of the run. The road
  properties and the road mark properties are left out, and so are the marking lines
  pushed beside each polygon.
\<close>

datatype LaneIdProp = LaneNum int | LaneTrack | LaneUndefined

record 'c LaneFeature =
  f_side :: Side
  f_laneId :: LaneIdProp
  f_laneType :: string
  f_s0 :: real
  f_s1 :: real
  f_ring :: "'c option list"

definition runFeature ::
  "(real \<times> real \<Rightarrow> 'c) \<Rightarrow> Side \<Rightarrow> LaneIdProp \<Rightarrow> string \<Rightarrow> Sample list \<Rightarrow> Sample list
     \<Rightarrow> 'c LaneFeature" where
  "runFeature projector side laneId laneType runOuter runInner =
     \<lparr>f_side = side, f_laneId = laneId, f_laneType = laneType,
      f_s0 = sample_s (runOuter ! 0),
      f_s1 = sample_s (runOuter ! (length runOuter - 1)),
      f_ring = (if side = SideLeft then toPolygon runOuter runInner projector
                else toPolygon runInner runOuter projector)\<rparr>"

text \<open>
  The state of the loop of \<open>buildLaneRunsTrack\<close>, and \<open>runType || x\<close> for the run type,
  which is \<open>null\<close> or a string.
\<close>

record 'c RunState =
  features :: "'c LaneFeature list"
  runOuter :: "Sample list"
  runInner :: "Sample list"
  active :: bool
  prevWidth :: real
  runType :: "string option"

definition runTypeOr :: "string option \<Rightarrow> string \<Rightarrow> string" where
  "runTypeOr rt dflt = (case rt of None \<Rightarrow> dflt | Some r \<Rightarrow> if r = [] then dflt else r)"

definition laneTypeNow :: "Road \<Rightarrow> Side \<Rightarrow> nat option \<Rightarrow> int \<Rightarrow> string" where
  "laneTypeNow road side sio laneId =
     (case find (\<lambda>w. lane_id w = laneId) (sectionLanes road side sio) of
        None \<Rightarrow> ''none''
      | Some lane \<Rightarrow> if lane_type lane = [] then ''none'' else lane_type lane)"

text \<open>One iteration of the loop over the centerline samples, for the sample \<open>i\<close>.\<close>

definition laneRunStep ::
  "(real \<times> real \<Rightarrow> 'c) \<Rightarrow> Road \<Rightarrow> Sample list \<Rightarrow> Track \<Rightarrow> 'c RunState \<Rightarrow> nat \<Rightarrow> 'c RunState" where
  "laneRunStep projector road samples track st i =
     (let s = sample_s (samples ! i);
          sio = sectionAt road s
      in case trackNodeAt track sio of
           None \<Rightarrow>
             (if active st then
                (let st1 = (if length (runOuter st) \<ge> 2 \<and> length (runInner st) \<ge> 2
                            then st\<lparr>features := features st @
                                   [runFeature projector (track_side track) LaneTrack
                                      (runTypeOr (runType st) []) (runOuter st) (runInner st)]\<rparr>
                            else st)
                 in st1\<lparr>runOuter := [], runInner := [], active := False, prevWidth := 0\<rparr>)
              else st)
         | Some node \<Rightarrow>
             (let side = track_side track;
                  wCur = laneWidthIn road side sio (node_id node) s;
                  outer = outerOffsetIn road side sio (node_id node) s;
                  inner = (if side = SideLeft then outer - wCur else outer + wCur);
                  pOuter = offsetPoint (samples ! i) outer;
                  pInner = offsetPoint (samples ! i) inner;
                  typeNow = laneTypeNow road side sio (node_id node);
                  widthOk = (wCur > EPS)
              in if widthOk then
                   (let st1 =
                          (if \<not> active st then
                             (let st2 = st\<lparr>runType := Some typeNow, active := True\<rparr>
                              in if i > 0 \<and> prevWidth st \<le> EPS then
                                   (let b = boundaryPair road samples track i node wCur outer
                                    in st2\<lparr>runOuter := runOuter st2 @ [fst b],
                                           runInner := runInner st2 @ [snd b]\<rparr>)
                                 else st2)
                           else st)
                    in st1\<lparr>runOuter := runOuter st1 @ [pOuter],
                           runInner := runInner st1 @ [pInner],
                           prevWidth := wCur\<rparr>)
                 else if active st then
                   (let st1 = (if i > 0 then
                                 (let b = boundaryPair road samples track i node wCur outer
                                  in st\<lparr>runOuter := runOuter st @ [fst b],
                                        runInner := runInner st @ [snd b]\<rparr>)
                               else st);
                        st2 = (if length (runOuter st1) \<ge> 2 \<and> length (runInner st1) \<ge> 2
                               then st1\<lparr>features := features st1 @
                                      [runFeature projector side (LaneNum (node_id node))
                                         (runTypeOr (runType st1) typeNow) (runOuter st1) (runInner st1)]\<rparr>
                               else st1)
                    in st2\<lparr>runOuter := [], runInner := [], active := False, prevWidth := wCur\<rparr>)
                 else st\<lparr>prevWidth := wCur\<rparr>))"

definition buildLaneRunsTrack ::
  "(real \<times> real \<Rightarrow> 'c) \<Rightarrow> Road \<Rightarrow> Sample list \<Rightarrow> Track \<Rightarrow> 'c LaneFeature list" where
  "buildLaneRunsTrack projector road samples track =
     (let st0 = \<lparr>features = [], runOuter = [], runInner = [], active = False,
                 prevWidth = 0, runType = None\<rparr>;
          st = foldl (laneRunStep projector road samples track) st0 [0..<length samples]
      in if active st \<and> length (runOuter st) \<ge> 2 \<and> length (runInner st) \<ge> 2
         then features st @
                [runFeature projector (track_side track)
                   (case track_nodes track of
                      [] \<Rightarrow> LaneUndefined
                    | _ \<Rightarrow> LaneNum (node_id (last (track_nodes track))))
                   (runTypeOr (runType st) []) (runOuter st) (runInner st)]
         else features st)"




definition onCenterline :: "Sample list \<Rightarrow> Sample \<Rightarrow> bool" where
  "onCenterline samples p =
     (p \<in> set samples
      \<or> (\<exists>k t. Suc k < length samples \<and> p = interpPoint (samples ! k) (samples ! Suc k) t))"

definition boundaryPoints :: "Side \<Rightarrow> Sample list \<Rightarrow> Sample \<Rightarrow> Sample \<Rightarrow> bool" where
  "boundaryPoints side samples pOuter pInner =
     (\<exists>p a b. onCenterline samples p \<and> pOuter = offsetPoint p a \<and> pInner = offsetPoint p b
              \<and> (if side = SideLeft then b < a else a < b))"

definition windsAs :: "(real \<times> real \<Rightarrow> 'c) \<Rightarrow> Side \<Rightarrow> Sample list \<Rightarrow> 'c LaneFeature \<Rightarrow> bool" where
  "windsAs projector side samples f =
     (\<exists>outer inner.
        2 \<le> length outer \<and> list_all2 (boundaryPoints side samples) outer inner \<and> f_side f = side
        \<and> f_ring f =
            (if side = SideLeft
             then map (\<lambda>(x, y, th, s). Some (projector (x, y))) outer
                  @ rev (map (\<lambda>(x, y, th, s). Some (projector (x, y))) inner)
                  @ [(\<lambda>(x, y, th, s). Some (projector (x, y))) (hd outer)]
             else map (\<lambda>(x, y, th, s). Some (projector (x, y))) inner
                  @ rev (map (\<lambda>(x, y, th, s). Some (projector (x, y))) outer)
                  @ [(\<lambda>(x, y, th, s). Some (projector (x, y))) (hd inner)]))"






text \<open>
  \<open>joinRoad\<close> has two lane sections, from \<open>s = 0\<close> and from \<open>s = 5\<close>, each with a left lane
  of id 1, of width 3.5 in the first and of width 3 in the second. \<open>lateTrack\<close> is a track
  that has a lane in the second section only.
\<close>

definition joinRoad :: Road where
  "joinRoad =
     \<lparr>laneSections =
        [\<lparr>sec_s = 0,
          sec_left = [\<lparr>lane_id = 1, lane_type = ''driving'',
                       widths = [\<lparr>sOffset = 0, wa = 7 / 2, wb = 0, wc = 0, wd = 0\<rparr>],
                       predecessor = None, successor = None\<rparr>],
          sec_center = [], sec_right = []\<rparr>,
         \<lparr>sec_s = 5,
          sec_left = [\<lparr>lane_id = 1, lane_type = ''driving'',
                       widths = [\<lparr>sOffset = 0, wa = 3, wb = 0, wc = 0, wd = 0\<rparr>],
                       predecessor = None, successor = None\<rparr>],
          sec_center = [], sec_right = []\<rparr>],
      laneOffsets = []\<rparr>"

definition lateTrack :: Track where
  "lateTrack =
     \<lparr>track_side = SideLeft,
      track_nodes = [\<lparr>node_si = 1, node_id = 1, node_pred = None, node_succ = None,
                      node_type = ''driving''\<rparr>]\<rparr>"

section \<open>The editable axes in the exported document (src/editor.js)\<close>

text \<open>
  This part is about values that come back bit-identical, so here a number is a value
  of the language and not a real. A vertex coordinate or a rounding factor is a finite
  number other than negative zero (\<open>Num r\<close>, with \<open>Num 0\<close> for \<open>+0\<close>), negative zero,
  \<open>NaN\<close>, one of the infinities, or \<open>null\<close>, which is what a number that is not finite
  comes back as. A vertex is a pair of such values, a rounding table lists the factors by
  vertex index in the order of the keys of the object.
\<close>

datatype jsval = Num real | NegZero | NaN | PosInf | NegInf | Null

record AxisFeature =
  axis_id :: string
  axis_coordinates :: "(jsval \<times> jsval) list"

type_synonym AxisRoundTable = "(nat \<times> jsval) list"

text \<open>
  The editor state that export and ingestion touch: \<open>roadsById\<close>, a \<open>Map\<close> in insertion
  order from the axis id to its feature, \<open>roundingByAxis\<close>, the set \<open>importedAxisIds\<close>
  and the counter of \<open>nextId\<close>, which formats the name \<open>`axis_${n}`\<close> in decimal.
\<close>

record EditorState =
  st_roadsById :: "(string \<times> AxisFeature) list"
  st_roundingByAxis :: "string \<Rightarrow> AxisRoundTable option"
  st_importedAxisIds :: "string set"
  st_idCounter :: nat

definition mapSet :: "'k \<Rightarrow> 'v \<Rightarrow> ('k \<times> 'v) list \<Rightarrow> ('k \<times> 'v) list" where
  "mapSet k v m =
     (if k \<in> set (map fst m)
      then map (\<lambda>(k', v'). if k' = k then (k', v) else (k', v')) m
      else m @ [(k, v)])"

fun decimal :: "nat \<Rightarrow> string" where
  "decimal n =
     (if n < 10 then [''0123456789'' ! n]
      else decimal (n div 10) @ [''0123456789'' ! (n mod 10)])"

declare decimal.simps [simp del]

definition nextId :: "EditorState \<Rightarrow> string \<times> EditorState" where
  "nextId st =
     (''axis_'' @ decimal (Suc (st_idCounter st)), st\<lparr>st_idCounter := Suc (st_idCounter st)\<rparr>)"

text \<open>
  The block of \<open>__ed_buildXodr\<close> that builds \<open>axesBlob\<close>: for every entry of
  \<open>roadsById\<close> the id, a copy of the coordinates and \<open>roundingByAxis.get(id) || {}\<close>.
\<close>

record BlobRec =
  blob_id :: string
  blob_coords :: "(jsval \<times> jsval) list"
  blob_rounding :: AxisRoundTable

definition axesBlob :: "EditorState \<Rightarrow> BlobRec list" where
  "axesBlob st =
     map (\<lambda>(id, f).
            \<lparr>blob_id = id,
             blob_coords = map (\<lambda>c. (fst c, snd c)) (axis_coordinates f),
             blob_rounding = (case st_roundingByAxis st id of None \<Rightarrow> [] | Some m \<Rightarrow> m)\<rparr>)
         (st_roadsById st)"

text \<open>
  \<open>JSON.stringify(axesBlob)\<close>, the text that \<open>__ed_buildXodr\<close> embeds in the \<open>editorAxes\<close>
  block of the document. The text is modelled by its content: an array of objects with
  the members \<open>id\<close>, \<open>coords\<close> and \<open>rounding\<close>, in which a number is either a numeral or
  \<open>null\<close>. \<open>JSON.stringify\<close> writes a finite number as a numeral that reads back as the same
  number, except that it writes negative zero as \<open>0\<close>; it writes \<open>NaN\<close> and the infinities
  as \<open>null\<close>.
\<close>

datatype jsonnum = JNumeral real | JNull

record JsonRec =
  json_id :: string
  json_coords :: "(jsonnum \<times> jsonnum) list"
  json_rounding :: "(nat \<times> jsonnum) list"

definition JSON_stringify_number :: "jsval \<Rightarrow> jsonnum" where
  "JSON_stringify_number v =
     (case v of
        Num r \<Rightarrow> JNumeral r
      | NegZero \<Rightarrow> JNumeral 0
      | NaN \<Rightarrow> JNull
      | PosInf \<Rightarrow> JNull
      | NegInf \<Rightarrow> JNull
      | Null \<Rightarrow> JNull)"

definition JSON_stringify :: "BlobRec list \<Rightarrow> JsonRec list" where
  "JSON_stringify blob =
     map (\<lambda>b. \<lparr>json_id = blob_id b,
                json_coords = map (\<lambda>(x, y). (JSON_stringify_number x, JSON_stringify_number y))
                                  (blob_coords b),
                json_rounding = map (\<lambda>(i, v). (i, JSON_stringify_number v)) (blob_rounding b)\<rparr>)
         blob"

text \<open>
  The value that \<open>editorIngestEditorAxes\<close> receives as \<open>data\<close>: an array whose entries may
  be \<open>null\<close>; the \<open>id\<close> of an entry may be absent, its \<open>coords\<close> may not be an array and
  its \<open>rounding\<close> may not be an object.
\<close>

record AxisRec =
  rec_id :: "string option"
  rec_coords :: "(jsval \<times> jsval) list option"
  rec_rounding :: "AxisRoundTable option"

text \<open>
  Modelled from the spec: the code that reads an exported document back, takes the text of
  its \<open>editorAxes\<close> block and hands the parsed value to \<open>editorIngestEditorAxes\<close> is not
  among the sources. The specification has the embedded payload re-ingested as it was
  serialized, so the model parses the embedded text with \<open>JSON.parse\<close>: every entry is an
  object with its three members, a numeral is the finite number it denotes and \<open>null\<close> is
  \<open>null\<close>.
\<close>

definition JSON_parse_number :: "jsonnum \<Rightarrow> jsval" where
  "JSON_parse_number n = (case n of JNumeral r \<Rightarrow> Num r | JNull \<Rightarrow> Null)"

definition readEditorAxes :: "JsonRec list \<Rightarrow> AxisRec option list" where
  "readEditorAxes text =
     map (\<lambda>j. Some \<lparr>rec_id = Some (json_id j),
                     rec_coords = Some (map (\<lambda>(x, y). (JSON_parse_number x, JSON_parse_number y))
                                            (json_coords j)),
                     rec_rounding = Some (map (\<lambda>(i, v). (i, JSON_parse_number v)) (json_rounding j))\<rparr>)
         text"

text \<open>
  \<open>editorIngestEditorAxes(data)\<close>: the three collections are cleared, then every entry
  with a coordinate array is stored under \<open>rec.id || nextId()\<close>. The calls that follow in
  the source rebuild derived state and the display and are left out.
\<close>

fun ingest_loop :: "EditorState \<Rightarrow> AxisRec option list \<Rightarrow> EditorState" where
  "ingest_loop st [] = st"
| "ingest_loop st (r # rs) =
     (case r of
        None \<Rightarrow> ingest_loop st rs
      | Some rec \<Rightarrow>
          (case rec_coords rec of
             None \<Rightarrow> ingest_loop st rs
           | Some cs \<Rightarrow>
               (let idst = (case rec_id rec of
                             None \<Rightarrow> nextId st
                           | Some i \<Rightarrow> if i = [] then nextId st else (i, st));
                    id = fst idst;
                    st1 = snd idst;
                    coords = map (\<lambda>c. (fst c, snd c)) cs;
                    st2 = st1\<lparr>st_roadsById :=
                                mapSet id \<lparr>axis_id = id, axis_coordinates = coords\<rparr> (st_roadsById st1)\<rparr>;
                    st3 = (case rec_rounding rec of
                             None \<Rightarrow> st2
                           | Some m \<Rightarrow> st2\<lparr>st_roundingByAxis := (st_roundingByAxis st2)(id \<mapsto> m)\<rparr>);
                    st4 = st3\<lparr>st_importedAxisIds := insert id (st_importedAxisIds st3)\<rparr>
                in ingest_loop st4 rs)))"

definition editorIngestEditorAxes :: "AxisRec option list \<Rightarrow> EditorState \<Rightarrow> EditorState" where
  "editorIngestEditorAxes data st =
     ingest_loop
       (st\<lparr>st_roadsById := [], st_roundingByAxis := (\<lambda>a. None), st_importedAxisIds := {}\<rparr>)
       data"

text \<open>
  The round trip: the axes of the editor \<open>st\<close> are exported, and the embedded payload of
  the document is ingested by an editor in the state \<open>st0\<close>.
\<close>

definition exportThenIngest :: "EditorState \<Rightarrow> EditorState \<Rightarrow> EditorState" where
  "exportThenIngest st st0 = editorIngestEditorAxes (readEditorAxes (JSON_stringify (axesBlob st))) st0"

text \<open>
  In the words of the claim: a value comes back bit-identical when it is a finite number
  other than negative zero. \<open>throughJSON\<close> is what any value comes back as.
\<close>

definition finiteNumber :: "jsval \<Rightarrow> bool" where
  "finiteNumber v = (case v of Num r \<Rightarrow> True | _ \<Rightarrow> False)"

definition throughJSON :: "jsval \<Rightarrow> jsval" where
  "throughJSON v = JSON_parse_number (JSON_stringify_number v)"

text \<open>
  An editor with two axes: \<open>axis_1\<close> has three vertices and the rounding factor 1/2 at its
  internal vertex, \<open>axis_2\<close> has two vertices and an empty rounding table. \<open>usedEditor\<close> is
  an editor that holds another axis when the payload is ingested. \<open>negZeroAxes\<close> is an
  editor with one axis whose first coordinate is negative zero and which has no rounding
  table, as an axis that was drawn and never rounded.
\<close>

definition twoAxes :: EditorState where
  "twoAxes =
     \<lparr>st_roadsById =
        [(''axis_1'', \<lparr>axis_id = ''axis_1'',
                       axis_coordinates = [(Num 0, Num 0), (Num 2, Num 0), (Num 2, Num 2)]\<rparr>),
         (''axis_2'', \<lparr>axis_id = ''axis_2'', axis_coordinates = [(Num 5, Num 1), (Num 7, Num 3)]\<rparr>)],
      st_roundingByAxis =
        (\<lambda>a. if a = ''axis_1'' then Some [(1, Num (1 / 2))]
              else if a = ''axis_2'' then Some [] else None),
      st_importedAxisIds = {},
      st_idCounter = 2\<rparr>"

definition usedEditor :: EditorState where
  "usedEditor =
     \<lparr>st_roadsById =
        [(''axis_1'', \<lparr>axis_id = ''axis_1'', axis_coordinates = [(Num 9, Num 9), (Num 8, Num 8)]\<rparr>)],
      st_roundingByAxis = (\<lambda>a. if a = ''axis_1'' then Some [(1, Num 0)] else None),
      st_importedAxisIds = {''axis_1''},
      st_idCounter = 1\<rparr>"

definition negZeroAxes :: EditorState where
  "negZeroAxes =
     \<lparr>st_roadsById =
        [(''axis_1'', \<lparr>axis_id = ''axis_1'', axis_coordinates = [(NegZero, Num 1), (Num 2, Num 3)]\<rparr>)],
      st_roundingByAxis = (\<lambda>a. None),
      st_importedAxisIds = {},
      st_idCounter = 1\<rparr>"

section \<open>The parser of the road document (src/xodr/opendrive.js)\<close>

text \<open>
  \<open>parseOpenDrive\<close> hands the text to the \<open>DOMParser\<close> of the browser and works on the
  document it gets back. The model starts from that document: an element has a tag, its
  attributes and its child elements. For markup that cannot be parsed the browser returns
  a document that contains a \<open>parsererror\<close> element.
\<close>

datatype xml = Elem (tagName: string) (attributes: "(string \<times> string) list") (childElements: "xml list")

definition getAttribute :: "xml \<Rightarrow> string \<Rightarrow> string option" where
  "getAttribute e name = map_of (attributes e) name"

text \<open>
  The selectors of the source. \<open>querySelector(T)\<close> is the first element with tag \<open>T\<close> in
  document order; \<open>querySelectorAll('P > T')\<close> on the document is every element with tag
  \<open>T\<close> whose parent element has tag \<open>P\<close>, in document order; \<open>:scope > T\<close> on an element is
  its children with tag \<open>T\<close>.
\<close>

fun descendants :: "xml \<Rightarrow> xml list" where
  "descendants (Elem t a cs) = Elem t a cs # concat (map descendants cs)"

definition querySelector :: "string \<Rightarrow> xml \<Rightarrow> xml option" where
  "querySelector T doc = find (\<lambda>e. tagName e = T) (descendants doc)"

fun selectChildOf :: "string \<Rightarrow> string \<Rightarrow> string option \<Rightarrow> xml \<Rightarrow> xml list" where
  "selectChildOf P T parent (Elem t a cs) =
     (if t = T \<and> parent = Some P then [Elem t a cs] else [])
     @ concat (map (selectChildOf P T (Some t)) cs)"

definition querySelectorAll_child :: "string \<Rightarrow> string \<Rightarrow> xml \<Rightarrow> xml list" where
  "querySelectorAll_child P T doc = selectChildOf P T None doc"

definition scopeChildren :: "string \<Rightarrow> xml \<Rightarrow> xml list" where
  "scopeChildren T e = filter (\<lambda>c. tagName c = T) (childElements e)"

definition scopeChild :: "string \<Rightarrow> xml \<Rightarrow> xml option" where
  "scopeChild T e = find (\<lambda>c. tagName c = T) (childElements e)"

text \<open>
  \<open>num\<close>: an absent attribute is \<open>undefined\<close>, a present one is converted by \<open>Number\<close> and
  kept when the result is finite. The conversion \<open>Number\<close> of the language is a parameter;
  its result is a finite number or one of \<open>NaN\<close>, \<open>Infinity\<close> and \<open>-Infinity\<close>.
\<close>

datatype jsnumber = Finite real | NotFinite

definition num :: "(string \<Rightarrow> jsnumber) \<Rightarrow> string option \<Rightarrow> real option" where
  "num Number v =
     (case v of
        None \<Rightarrow> None
      | Some t \<Rightarrow> (case Number t of Finite n \<Rightarrow> Some n | NotFinite \<Rightarrow> None))"

text \<open>\<open>a || b\<close> on attribute values: the empty string counts as absent.\<close>

definition orAttr :: "string option \<Rightarrow> string option \<Rightarrow> string option" where
  "orAttr a b = (case a of None \<Rightarrow> b | Some t \<Rightarrow> if t = [] then b else Some t)"

text \<open>The records that the parser builds for a geometry and for a road.\<close>

datatype ParsedType =
    TLine
  | TArc "real option"
  | TSpiral "real option" "real option"
  | TPoly3 "real option" "real option" "real option" "real option"
           "real option" "real option" "real option" "real option"

record ParsedGeometry =
  pg_s :: "real option"
  pg_x :: "real option"
  pg_y :: "real option"
  pg_hdg :: "real option"
  pg_length :: "real option"
  pg_type :: ParsedType

record ParsedRoad =
  road_id :: "string option"
  road_name :: string
  road_length :: "real option"
  road_planView :: "ParsedGeometry list"

record RoadModel =
  roads :: "ParsedRoad list"

datatype error = Error string

text \<open>
  The body of the loop over the \<open>geometry\<close> elements of a road: a record is pushed when
  the element has a \<open>line\<close>, \<open>arc\<close>, \<open>spiral\<close> or \<open>paramPoly3\<close> child, tried in this order,
  and nothing is pushed otherwise.
\<close>

definition geometryType :: "(string \<Rightarrow> jsnumber) \<Rightarrow> xml \<Rightarrow> ParsedType option" where
  "geometryType Number g =
     (if scopeChild ''line'' g \<noteq> None then Some TLine
      else case scopeChild ''arc'' g of
        Some arc \<Rightarrow> Some (TArc (num Number (getAttribute arc ''curvature'')))
      | None \<Rightarrow>
          (case scopeChild ''spiral'' g of
             Some sp \<Rightarrow>
               Some (TSpiral
                 (num Number (orAttr (getAttribute sp ''curvStart'') (getAttribute sp ''curvatureStart'')))
                 (num Number (orAttr (getAttribute sp ''curvEnd'') (getAttribute sp ''curvatureEnd''))))
           | None \<Rightarrow>
               (case scopeChild ''paramPoly3'' g of
                  Some p \<Rightarrow>
                    Some (TPoly3
                      (num Number (getAttribute p ''aU'')) (num Number (getAttribute p ''bU''))
                      (num Number (getAttribute p ''cU'')) (num Number (getAttribute p ''dU''))
                      (num Number (getAttribute p ''aV'')) (num Number (getAttribute p ''bV''))
                      (num Number (getAttribute p ''cV'')) (num Number (getAttribute p ''dV'')))
                | None \<Rightarrow> None)))"

definition pushGeometry ::
  "(string \<Rightarrow> jsnumber) \<Rightarrow> ParsedGeometry list \<Rightarrow> xml \<Rightarrow> ParsedGeometry list" where
  "pushGeometry Number planView g =
     (case geometryType Number g of
        None \<Rightarrow> planView
      | Some ty \<Rightarrow>
          planView @
          [\<lparr>pg_s = num Number (getAttribute g ''s''),
            pg_x = num Number (getAttribute g ''x''),
            pg_y = num Number (getAttribute g ''y''),
            pg_hdg = num Number (getAttribute g ''hdg''),
            pg_length = num Number (getAttribute g ''length''),
            pg_type = ty\<rparr>])"

text \<open>
  The body of the loop over the \<open>road\<close> elements. The lanes of the road
  (\<open>laneOffsets\<close>, \<open>laneSections\<close>) are read by code that has no branch leaving the loop
  body and no \<open>throw\<close>; they and the header are left out of the record.
\<close>

definition readPlanView :: "(string \<Rightarrow> jsnumber) \<Rightarrow> xml \<Rightarrow> ParsedGeometry list" where
  "readPlanView Number r =
     foldl (pushGeometry Number) []
       (concat (map (scopeChildren ''geometry'') (scopeChildren ''planView'' r)))"

definition pushRoad :: "(string \<Rightarrow> jsnumber) \<Rightarrow> ParsedRoad list \<Rightarrow> xml \<Rightarrow> ParsedRoad list" where
  "pushRoad Number rds r =
     rds @
     [\<lparr>road_id = getAttribute r ''id'',
       road_name = (case orAttr (getAttribute r ''name'') None of None \<Rightarrow> [] | Some t \<Rightarrow> t),
       road_length = num Number (getAttribute r ''length''),
       road_planView = readPlanView Number r\<rparr>]"

definition parseOpenDrive :: "(string \<Rightarrow> jsnumber) \<Rightarrow> xml \<Rightarrow> error + RoadModel" where
  "parseOpenDrive Number doc =
     (case querySelector ''parsererror'' doc of
        Some err \<Rightarrow> Inl (Error ''XML parse error'')
      | None \<Rightarrow>
          Inr \<lparr>roads = foldl (pushRoad Number) [] (querySelectorAll_child ''OpenDRIVE'' ''road'' doc)\<rparr>)"

text \<open>
  In the words of the specification: a road has its required fields when it has an id, a
  length and geometry.
\<close>

definition hasRequiredFields :: "ParsedRoad \<Rightarrow> bool" where
  "hasRequiredFields r = (road_id r \<noteq> None \<and> road_length r \<noteq> None \<and> road_planView r \<noteq> [])"

text \<open>
  Example documents. \<open>Number_decimal\<close> is \<open>Number\<close> on the empty string and on strings of
  decimal digits, the only numerals in the examples; every other string is answered with
  \<open>NaN\<close>, which is what \<open>Number\<close> does for text that is no numeral.
\<close>

definition digitTable :: "(char \<times> nat) list" where
  "digitTable =
     [(CHR ''0'', 0), (CHR ''1'', 1), (CHR ''2'', 2), (CHR ''3'', 3), (CHR ''4'', 4),
      (CHR ''5'', 5), (CHR ''6'', 6), (CHR ''7'', 7), (CHR ''8'', 8), (CHR ''9'', 9)]"

fun decimalValue :: "nat \<Rightarrow> string \<Rightarrow> nat option" where
  "decimalValue n [] = Some n"
| "decimalValue n (c # cs) =
     (case map_of digitTable c of
        None \<Rightarrow> None
      | Some d \<Rightarrow> decimalValue (10 * n + d) cs)"

definition Number_decimal :: "string \<Rightarrow> jsnumber" where
  "Number_decimal t = (case decimalValue 0 t of None \<Rightarrow> NotFinite | Some n \<Rightarrow> Finite (real n))"

text \<open>
  \<open>looseDoc\<close>: \<open><OpenDRIVE><road/><road id="7" name="main" length="10"><planView><geometry
  s="0" x="0" y="0" hdg="0" length="10"><line/></geometry></planView></road></OpenDRIVE>\<close>,
  a document whose first road has no id, no length and no geometry.
\<close>

definition looseDoc :: xml where
  "looseDoc =
     Elem ''OpenDRIVE'' []
       [Elem ''road'' [] [],
        Elem ''road'' [(''id'', ''7''), (''name'', ''main''), (''length'', ''10'')]
          [Elem ''planView'' []
             [Elem ''geometry''
                [(''s'', ''0''), (''x'', ''0''), (''y'', ''0''), (''hdg'', ''0''), (''length'', ''10'')]
                [Elem ''line'' [] []]]]]"

text \<open>\<open>brokenDoc\<close>: a document with a \<open>parsererror\<close> element, as a browser returns for text that is no markup.\<close>

definition brokenDoc :: xml where
  "brokenDoc = Elem ''html'' [] [Elem ''body'' [] [Elem ''parsererror'' [] []]]"

section \<open>Spline addition reproduces the pointwise sum (src/xodr/spline.js)\<close>

lemma Poly3_rebase_value:
  "Poly3_value (Poly3_rebase p delta) x = Poly3_value p (x + delta)"
  by (simp add: Poly3_rebase_def Poly3_value_def Poly3_deriv_def Poly3_deriv2_def Poly3_deriv3_def Poly3_new_def Let_def algebra_simps power2_eq_square power3_eq_cube)

lemma Poly3_add_value:
  "Poly3_value (Poly3_add p q) x = Poly3_value p x + Poly3_value q x"
  by (simp add: Poly3_add_def Poly3_value_def Poly3_new_def algebra_simps)

lemma get_poly_loop_last:
  "get_poly_loop s cand seg = last (cand # takeWhile (\<lambda>sg. s0 sg \<le> s + 1 / 10 ^ 12) seg)"
  by (induction seg arbitrary: cand) auto

lemma get_poly_last:
  assumes "seg \<noteq> []"
  shows "CubicSpline_get_poly seg s True = last (hd seg # takeWhile (\<lambda>sg. s0 sg \<le> s + 1 / 10 ^ 12) seg)"
proof -
  obtain f rest where seg: "seg = f # rest" using assms by (cases seg) auto
  let ?P = "\<lambda>sg. s0 sg \<le> s + 1 / 10 ^ 12"
  show ?thesis
  proof (cases "?P f")
    case True
    have "?P (last (f # takeWhile ?P rest))"
      using True by (metis (mono_tags, lifting) last_ConsL last_ConsR last_in_set set_takeWhileD)
    then show ?thesis using True by (simp add: seg CubicSpline_get_poly_def get_poly_loop_last)
  next
    case False
    then show ?thesis by (simp add: seg CubicSpline_get_poly_def)
  qed
qed

lemma addSegment_sorted:
  assumes "sorted (map s0 out)" "\<forall>x\<in>set out. s0 x \<le> k"
  shows "CubicSpline_addSegment out k a b c d = out @ [\<lparr>s0 = k, poly = Poly3_new a b c d\<rparr>]"
  unfolding CubicSpline_addSegment_def
  by (rule sort_key_id_if_sorted) (use assms in \<open>auto simp: sorted_append\<close>)

lemma add_fold:
  assumes "sorted (pre @ ks)"
  shows "foldl (\<lambda>out k. let p = add_segment_at A B k
                             in CubicSpline_addSegment out k (pa p) (pb p) (pc p) (pd p))
           (map (\<lambda>k. \<lparr>s0 = k, poly = add_segment_at A B k\<rparr>) pre) ks
        = map (\<lambda>k. \<lparr>s0 = k, poly = add_segment_at A B k\<rparr>) (pre @ ks)"
  using assms
proof (induction ks arbitrary: pre)
  case Nil
  then show ?case by simp
next
  case (Cons k ks)
  let ?mk = "\<lambda>k. \<lparr>s0 = k, poly = add_segment_at A B k\<rparr>"
  have srt: "sorted (map s0 (map ?mk pre))" using Cons.prems by (simp add: o_def sorted_append)
  have le: "\<forall>x\<in>set (map ?mk pre). s0 x \<le> k" using Cons.prems by (auto simp: sorted_append)
  have step: "CubicSpline_addSegment (map ?mk pre) k (pa (add_segment_at A B k)) (pb (add_segment_at A B k)) (pc (add_segment_at A B k)) (pd (add_segment_at A B k))
      = map ?mk (pre @ [k])"
    using addSegment_sorted[OF srt le] by (simp add: Poly3_new_def)
  have "sorted ((pre @ [k]) @ ks)" using Cons.prems by simp
  from Cons.IH[OF this] show ?case by (simp add: step Let_def)
qed

lemma CubicSpline_add_map:
  "CubicSpline_add A B = map (\<lambda>k. \<lparr>s0 = k, poly = add_segment_at A B k\<rparr>) (add_ticks A B)"
proof -
  have "sorted ([] @ add_ticks A B)" by (simp add: add_ticks_def)
  from add_fold[OF this, of A B] show ?thesis
    by (simp add: CubicSpline_add_def Let_def)
qed


lemma last_takeWhile_key_eq:
  assumes "distinct (map f S)"
  shows "last (hd S # takeWhile (\<lambda>x. f x = c) S) = hd S"
proof (cases S)
  case Nil
  then show ?thesis by simp
next
  case (Cons x xs)
  show ?thesis
  proof (cases "f x = c")
    case True
    have "f x \<notin> f ` set xs" using assms Cons by simp
    then have "\<forall>y\<in>set xs. f y \<noteq> c" using True by (metis imageI)
    then have "takeWhile (\<lambda>x. f x = c) xs = []" by (cases xs) auto
    then show ?thesis using Cons True by simp
  next
    case False
    then show ?thesis using Cons by simp
  qed
qed

lemma sorted_le_last:
  fixes xs :: "real list"
  shows "sorted xs \<Longrightarrow> y \<in> set xs \<Longrightarrow> y \<le> last xs"
  by (induction xs) auto

lemma sorted_hd_le:
  fixes xs :: "real list"
  shows "sorted xs \<Longrightarrow> y \<in> set xs \<Longrightarrow> hd xs \<le> y"
  by (cases xs) auto

lemma sorted_takeWhile_last_max:
  fixes K :: "real list" and t :: real
  assumes "sorted K" "y \<in> set K" "y \<le> u" "takeWhile (\<lambda>k. k \<le> u) K \<noteq> []"
  shows "y \<le> last (takeWhile (\<lambda>k. k \<le> u) K)"
proof -
  let ?Q = "\<lambda>k. k \<le> u"
  have split: "K = takeWhile ?Q K @ dropWhile ?Q K" by simp
  have srt: "sorted (takeWhile ?Q K @ dropWhile ?Q K)" using assms(1) by simp
  have "y \<in> set (takeWhile ?Q K) \<or> y \<in> set (dropWhile ?Q K)"
    using assms(2) by (metis Un_iff set_append split)
  then show ?thesis
  proof
    assume "y \<in> set (takeWhile ?Q K)"
    moreover have "sorted (takeWhile ?Q K)" using srt by (simp add: sorted_append)
    ultimately show ?thesis by (simp add: sorted_le_last)
  next
    assume yd: "y \<in> set (dropWhile ?Q K)"
    have ne: "dropWhile ?Q K \<noteq> []"
    proof
      assume "dropWhile ?Q K = []"
      with yd show False by simp
    qed
    have "\<not> ?Q (hd (dropWhile ?Q K))" using ne by (rule hd_dropWhile)
    moreover have "hd (dropWhile ?Q K) \<le> y"
      using yd srt by (simp add: sorted_append sorted_hd_le)
    ultimately show ?thesis using assms(3) by simp
  qed
qed


lemma operand_selection:
  fixes K :: "real list" and t :: real
  assumes ne: "S \<noteq> []" and dist: "distinct (map s0 S)"
      and sub: "s0 ` set S \<subseteq> set K" and srt: "sorted K"
      and sep: "\<forall>x\<in>set K. \<forall>y\<in>set K. x < y \<longrightarrow> x + 1 / 10 ^ 12 < y"
      and Kne: "K \<noteq> []"
  defines "ks \<equiv> last (hd K # takeWhile (\<lambda>k. k \<le> t + 1 / 10 ^ 12) K)"
  shows "CubicSpline_get_poly S ks True = CubicSpline_get_poly S t True"
proof -
  let ?tol = "1 / 10 ^ 12 :: real"
  let ?Q = "\<lambda>k. k \<le> t + ?tol"
  let ?P = "\<lambda>u sg. s0 sg \<le> u + ?tol"
  have goal: "last (hd S # takeWhile (?P ks) S) = last (hd S # takeWhile (?P t) S)"
  proof (cases "?Q (hd K)")
    case False
    have tw: "takeWhile ?Q K = []" using False Kne by (cases K) auto
    have ks: "ks = hd K" unfolding ks_def tw by simp
    have above: "\<forall>x\<in>set S. t + ?tol < s0 x"
    proof
      fix x assume "x \<in> set S"
      then have "s0 x \<in> set K" using sub by auto
      then have "hd K \<le> s0 x" using srt by (simp add: sorted_hd_le)
      then show "t + ?tol < s0 x" using False by simp
    qed
    have rhs: "takeWhile (?P t) S = []" using above ne by (cases S) auto
    have "\<forall>x\<in>set S. ?P ks x = (s0 x = ks)"
    proof
      fix x assume xS: "x \<in> set S"
      then have inK: "s0 x \<in> set K" using sub by auto
      then have ge: "ks \<le> s0 x" using srt ks by (simp add: sorted_hd_le)
      have ksK: "ks \<in> set K" using ks Kne by simp
      show "?P ks x = (s0 x = ks)"
      proof (cases "s0 x = ks")
        case True
        then show ?thesis by simp
      next
        case False
        then have "ks < s0 x" using ge by simp
        then have "ks + ?tol < s0 x" using sep ksK inK by blast
        then show ?thesis using False by simp
      qed
    qed
    then have "takeWhile (?P ks) S = takeWhile (\<lambda>x. s0 x = ks) S"
      by (intro takeWhile_cong) auto
    then show ?thesis using rhs last_takeWhile_key_eq[OF dist, of ks] by simp
  next
    case True
    have twne: "takeWhile ?Q K \<noteq> []" using True Kne by (cases K) auto
    have ks: "ks = last (takeWhile ?Q K)" using twne by (simp add: ks_def)
    have ks_in: "ks \<in> set (takeWhile ?Q K)" using twne ks by simp
    have ksK: "ks \<in> set K" using ks_in by (rule set_takeWhileD[THEN conjunct1])
    have ksQ: "?Q ks" using ks_in by (rule set_takeWhileD[THEN conjunct2])
    have "\<forall>x\<in>set S. ?P ks x = ?P t x"
    proof
      fix x assume xS: "x \<in> set S"
      then have inK: "s0 x \<in> set K" using sub by auto
      show "?P ks x = ?P t x"
      proof
        assume a: "?P ks x"
        show "?P t x"
        proof (cases "s0 x \<le> ks")
          case True
          then show ?thesis using ksQ by simp
        next
          case False
          then have "ks < s0 x" by simp
          then have "ks + ?tol < s0 x" using sep ksK inK by blast
          then show ?thesis using a by simp
        qed
      next
        assume a: "?P t x"
        have "s0 x \<le> ks" unfolding ks
          using sorted_takeWhile_last_max[OF srt inK a twne] .
        then show "?P ks x" by simp
      qed
    qed
    then have "takeWhile (?P ks) S = takeWhile (?P t) S"
      by (intro takeWhile_cong) auto
    then show ?thesis by simp
  qed
  show ?thesis using goal by (simp add: get_poly_last[OF ne])
qed

lemma operand_value:
  fixes K :: "real list" and t :: real
  assumes dist: "distinct (map s0 S)"
      and sub: "s0 ` set S \<subseteq> set K" and srt: "sorted K"
      and sep: "\<forall>x\<in>set K. \<forall>y\<in>set K. x < y \<longrightarrow> x + 1 / 10 ^ 12 < y"
      and Kne: "K \<noteq> []"
  defines "ks \<equiv> last (hd K # takeWhile (\<lambda>k. k \<le> t + 1 / 10 ^ 12) K)"
  shows "Poly3_value (Poly3_rebase (poly (CubicSpline_get_poly S ks True))
            (ks - s0 (CubicSpline_get_poly S ks True))) (t - ks) = CubicSpline_get S t 0"
proof (cases "S = []")
  case True
  then show ?thesis
    by (simp add: CubicSpline_get_def CubicSpline_get_poly_def Poly3_rebase_value)
       (simp add: Poly3_value_def Poly3_new_def)
next
  case False
  have "CubicSpline_get_poly S ks True = CubicSpline_get_poly S t True"
    unfolding ks_def using operand_selection[OF False dist sub srt sep Kne] .
  then show ?thesis using False
    by (simp add: CubicSpline_get_def Poly3_rebase_value Let_def)
qed

text \<open>
  Claim C1, as amended. \<open>get_poly\<close> accepts a knot up to \<open>1e-12\<close> to the right of
  the evaluation point, so two distinct knots closer than that are looked up as one. When
  each operand has pairwise distinct knots and any two distinct knots of the merged knot
  list are more than \<open>1e-12\<close> apart, the spline returned by \<open>add\<close> evaluates, at
  every point \<open>t\<close>, to the sum of the operands' values at \<open>t\<close>.
\<close>

theorem CubicSpline_add_pointwise:
  assumes "distinct (map s0 A)" and "distinct (map s0 B)"
      and sep: "\<forall>x\<in>set (add_ticks A B). \<forall>y\<in>set (add_ticks A B). x < y \<longrightarrow> x + 1 / 10 ^ 12 < y"
  shows "CubicSpline_get (CubicSpline_add A B) t 0 = CubicSpline_get A t 0 + CubicSpline_get B t 0"
proof (cases "add_ticks A B = []")
  case True
  then have "set (add_ticks A B) = {}" by simp
  then have "A = []" "B = []" by (simp_all add: add_ticks_def)
  then show ?thesis by (simp add: CubicSpline_add_def add_ticks_def CubicSpline_get_def)
next
  case False
  let ?K = "add_ticks A B"
  let ?mk = "\<lambda>k. \<lparr>s0 = k, poly = add_segment_at A B k\<rparr>"
  let ?ks = "last (hd ?K # takeWhile (\<lambda>k. k \<le> t + 1 / 10 ^ 12) ?K)"
  have srt: "sorted ?K" by (simp add: add_ticks_def)
  have subA: "s0 ` set A \<subseteq> set ?K" and subB: "s0 ` set B \<subseteq> set ?K"
    by (auto simp: add_ticks_def)
  have sumne: "CubicSpline_add A B \<noteq> []" using False by (simp add: CubicSpline_add_map)
  have tw: "takeWhile (\<lambda>sg. s0 sg \<le> t + 1 / 10 ^ 12) (map ?mk ?K)
        = map ?mk (takeWhile (\<lambda>k. k \<le> t + 1 / 10 ^ 12) ?K)"
    by (simp add: takeWhile_map o_def)
  have sel: "CubicSpline_get_poly (CubicSpline_add A B) t True = ?mk ?ks"
    using False
    by (simp add: CubicSpline_add_map get_poly_last takeWhile_map o_def hd_map last_map)
  have "CubicSpline_get (CubicSpline_add A B) t 0 = Poly3_value (add_segment_at A B ?ks) (t - ?ks)"
    using sumne by (simp add: CubicSpline_get_def sel Let_def)
  also have "\<dots> = CubicSpline_get A t 0 + CubicSpline_get B t 0"
    using operand_value[OF assms(1) subA srt sep False, of t]
          operand_value[OF assms(2) subB srt sep False, of t]
    by (simp add: add_segment_at_def Let_def Poly3_add_value)
  finally show ?thesis .
qed

text \<open>
  Witness for C1: two splines with non-aligned knots (0 and 2 against 1), evaluated at
  \<open>t = 5/2\<close>, inside the last segment of the sum.
\<close>

theorem CubicSpline_add_pointwise_witness:
  "CubicSpline_get
     (CubicSpline_add
        (CubicSpline_fromSegments
           [\<lparr>rs0 = 2, ra = 0, rb = 0, rc = 1, rd = 0\<rparr>, \<lparr>rs0 = 0, ra = 1, rb = 2, rc = 0, rd = 0\<rparr>])
        (CubicSpline_fromSegments [\<lparr>rs0 = 1, ra = 3, rb = 0, rc = 0, rd = 1\<rparr>]))
     (5 / 2) 0
   = CubicSpline_get
       (CubicSpline_fromSegments
          [\<lparr>rs0 = 2, ra = 0, rb = 0, rc = 1, rd = 0\<rparr>, \<lparr>rs0 = 0, ra = 1, rb = 2, rc = 0, rd = 0\<rparr>])
       (5 / 2) 0
   + CubicSpline_get (CubicSpline_fromSegments [\<lparr>rs0 = 1, ra = 3, rb = 0, rc = 0, rd = 1\<rparr>])
       (5 / 2) 0"
proof -
  let ?A = "CubicSpline_fromSegments
           [\<lparr>rs0 = 2, ra = 0, rb = 0, rc = 1, rd = 0\<rparr>, \<lparr>rs0 = 0, ra = 1, rb = 2, rc = 0, rd = 0\<rparr>]"
  let ?B = "CubicSpline_fromSegments [\<lparr>rs0 = 1, ra = 3, rb = 0, rc = 0, rd = 1\<rparr>]"
  have h1: "distinct (map s0 ?A)" by (simp add: CubicSpline_fromSegments_def)
  have h2: "distinct (map s0 ?B)" by (simp add: CubicSpline_fromSegments_def)
  have h3: "\<forall>x\<in>set (add_ticks ?A ?B). \<forall>y\<in>set (add_ticks ?A ?B). x < y \<longrightarrow> x + 1 / 10 ^ 12 < y"
    by (simp add: CubicSpline_fromSegments_def add_ticks_def)
  show ?thesis using CubicSpline_add_pointwise[OF h1 h2 h3, of "5 / 2"] .
qed

lemma c1_cexA: "CubicSpline_fromSegments
           [\<lparr>rs0 = 0, ra = 0, rb = 0, rc = 0, rd = 0\<rparr>, \<lparr>rs0 = 1, ra = 1, rb = 0, rc = 0, rd = 0\<rparr>]
   = [\<lparr>s0 = 0, poly = \<lparr>pa = 0, pb = 0, pc = 0, pd = 0\<rparr>\<rparr>, \<lparr>s0 = 1, poly = \<lparr>pa = 1, pb = 0, pc = 0, pd = 0\<rparr>\<rparr>]"
  by (simp add: CubicSpline_fromSegments_def Poly3_new_def)

lemma c1_cexB: "CubicSpline_fromSegments [\<lparr>rs0 = 1 - 5 / 10 ^ 13, ra = 0, rb = 0, rc = 0, rd = 0\<rparr>]
  = [\<lparr>s0 = 1 - 5 / 10 ^ 13, poly = \<lparr>pa = 0, pb = 0, pc = 0, pd = 0\<rparr>\<rparr>]"
  by (simp add: CubicSpline_fromSegments_def Poly3_new_def)

lemma c1_cexK: "add_ticks [\<lparr>s0 = 0, poly = \<lparr>pa = 0, pb = 0, pc = 0, pd = 0\<rparr>\<rparr>, \<lparr>s0 = 1, poly = \<lparr>pa = 1, pb = 0, pc = 0, pd = 0\<rparr>\<rparr>]
    [\<lparr>s0 = 1 - 5 / 10 ^ 13, poly = \<lparr>pa = 0, pb = 0, pc = 0, pd = 0\<rparr>\<rparr>] = [0, 1 - 5 / 10 ^ 13, 1]"
  by (simp add: add_ticks_def)

lemma c1_cexP:
  "add_segment_at [\<lparr>s0 = 0, poly = \<lparr>pa = 0, pb = 0, pc = 0, pd = 0\<rparr>\<rparr>, \<lparr>s0 = 1, poly = \<lparr>pa = 1, pb = 0, pc = 0, pd = 0\<rparr>\<rparr>]
    [\<lparr>s0 = 1 - 5 / 10 ^ 13, poly = \<lparr>pa = 0, pb = 0, pc = 0, pd = 0\<rparr>\<rparr>] 0 = \<lparr>pa = 0, pb = 0, pc = 0, pd = 0\<rparr>"
  "add_segment_at [\<lparr>s0 = 0, poly = \<lparr>pa = 0, pb = 0, pc = 0, pd = 0\<rparr>\<rparr>, \<lparr>s0 = 1, poly = \<lparr>pa = 1, pb = 0, pc = 0, pd = 0\<rparr>\<rparr>]
    [\<lparr>s0 = 1 - 5 / 10 ^ 13, poly = \<lparr>pa = 0, pb = 0, pc = 0, pd = 0\<rparr>\<rparr>] (1 - 5 / 10 ^ 13) = \<lparr>pa = 1, pb = 0, pc = 0, pd = 0\<rparr>"
  "add_segment_at [\<lparr>s0 = 0, poly = \<lparr>pa = 0, pb = 0, pc = 0, pd = 0\<rparr>\<rparr>, \<lparr>s0 = 1, poly = \<lparr>pa = 1, pb = 0, pc = 0, pd = 0\<rparr>\<rparr>]
    [\<lparr>s0 = 1 - 5 / 10 ^ 13, poly = \<lparr>pa = 0, pb = 0, pc = 0, pd = 0\<rparr>\<rparr>] 1 = \<lparr>pa = 1, pb = 0, pc = 0, pd = 0\<rparr>"
  by (simp_all add: Let_def add_segment_at_def CubicSpline_get_poly_def
       Poly3_rebase_def Poly3_add_def Poly3_value_def Poly3_deriv_def Poly3_deriv2_def Poly3_deriv3_def Poly3_new_def)

lemma c1_cexS: "CubicSpline_add [\<lparr>s0 = 0, poly = \<lparr>pa = 0, pb = 0, pc = 0, pd = 0\<rparr>\<rparr>, \<lparr>s0 = 1, poly = \<lparr>pa = 1, pb = 0, pc = 0, pd = 0\<rparr>\<rparr>]
    [\<lparr>s0 = 1 - 5 / 10 ^ 13, poly = \<lparr>pa = 0, pb = 0, pc = 0, pd = 0\<rparr>\<rparr>]
   = [\<lparr>s0 = 0, poly = \<lparr>pa = 0, pb = 0, pc = 0, pd = 0\<rparr>\<rparr>,
      \<lparr>s0 = 1 - 5 / 10 ^ 13, poly = \<lparr>pa = 1, pb = 0, pc = 0, pd = 0\<rparr>\<rparr>,
      \<lparr>s0 = 1, poly = \<lparr>pa = 1, pb = 0, pc = 0, pd = 0\<rparr>\<rparr>]"
  unfolding CubicSpline_add_def c1_cexK Let_def foldl.simps c1_cexP
  by (simp add: CubicSpline_addSegment_def Poly3_new_def)

text \<open>
  Counterexample to C1 as stated: \<open>A\<close> has knots 0 and 1 (constant 0, then constant 1),
  \<open>B\<close> has the single knot \<open>1 - 5e-13\<close> (constant 0). At \<open>t = 1 - 1.2e-12\<close> both operands
  evaluate to 0, but the sum spline selects its segment at \<open>1 - 5e-13\<close>, which was built
  from the segment of \<open>A\<close> at knot 1, and evaluates to 1. The lemmas before the
  counterexample evaluate the operands, the merged knots and the sum spline.
\<close>

theorem CubicSpline_add_close_knots_counterexample:
  "CubicSpline_get
     (CubicSpline_add
        (CubicSpline_fromSegments
           [\<lparr>rs0 = 0, ra = 0, rb = 0, rc = 0, rd = 0\<rparr>, \<lparr>rs0 = 1, ra = 1, rb = 0, rc = 0, rd = 0\<rparr>])
        (CubicSpline_fromSegments [\<lparr>rs0 = 1 - 5 / 10 ^ 13, ra = 0, rb = 0, rc = 0, rd = 0\<rparr>]))
     (1 - 12 / 10 ^ 13) 0
   \<noteq> CubicSpline_get
       (CubicSpline_fromSegments
          [\<lparr>rs0 = 0, ra = 0, rb = 0, rc = 0, rd = 0\<rparr>, \<lparr>rs0 = 1, ra = 1, rb = 0, rc = 0, rd = 0\<rparr>])
       (1 - 12 / 10 ^ 13) 0
   + CubicSpline_get
       (CubicSpline_fromSegments [\<lparr>rs0 = 1 - 5 / 10 ^ 13, ra = 0, rb = 0, rc = 0, rd = 0\<rparr>])
       (1 - 12 / 10 ^ 13) 0"
  unfolding c1_cexA c1_cexB c1_cexS
  by (simp add: CubicSpline_get_def CubicSpline_get_poly_def Poly3_value_def)

section \<open>Sampling a line and the end of a spiral (src/xodr/geometry.js)\<close>

lemma line_samples_nth:
  "line_samples x y hdg n ds =
     map (\<lambda>i. (x + real i * ds * cos hdg, y + real i * ds * sin hdg, hdg, real i * ds)) [0..<Suc n]"
  by (simp add: line_samples_def Let_def)

text \<open>
  Claim C8, as amended. The sampler clamps the chord target before it samples a line:
  the effective target is \<open>c = max(0.2, baseStep || 0.7)\<close>. A line of positive length
  \<open>L\<close> is sampled at the \<open>n + 1\<close> evenly spaced arc lengths \<open>i * ds\<close>,
  \<open>i = 0..n\<close>, with \<open>n = ceil(L / c)\<close> and \<open>ds = L / n\<close>, each sample on the ray from
  \<open>(x, y)\<close> in direction \<open>hdg\<close> and carrying heading \<open>hdg\<close>.
\<close>

theorem sampleSegmentAdaptive_line_even:
  assumes "0 < geom_length g" and "geom_type g = GLine"
  shows "sampleSegmentAdaptive g opts =
           (let c = max 0.2 (or_default (baseStep opts) 0.7);
                n = nat \<lceil>geom_length g / c\<rceil>;
                ds = geom_length g / real n
            in Some (map (\<lambda>i. (geom_x g + real i * ds * cos (geom_hdg g),
                                 geom_y g + real i * ds * sin (geom_hdg g),
                                 geom_hdg g,
                                 real i * ds)) [0..<Suc n]))"
proof -
  let ?c = "max 0.2 (or_default (baseStep opts) 0.7) :: real"
  have cpos: "0 < ?c" by simp
  have "0 < geom_length g / ?c" using assms(1) cpos by simp
  then have "1 \<le> \<lceil>geom_length g / ?c\<rceil>" by (simp add: ceiling_less_iff  less_ceiling_iff)
  then have n: "max 1 \<lceil>geom_length g / ?c\<rceil> = \<lceil>geom_length g / ?c\<rceil>" by simp
  have ne: "?c \<noteq> 0" using cpos by simp
  have "sampleSegmentAdaptive g opts = sampleSegment (g\<lparr>geom_type := GLine\<rparr>) ?c"
    using assms by (simp add: sampleSegmentAdaptive_def Let_def)
  also have "\<dots> = Some (line_samples (geom_x g) (geom_y g) (geom_hdg g)
                 (nat \<lceil>geom_length g / ?c\<rceil>) (geom_length g / real (nat \<lceil>geom_length g / ?c\<rceil>)))"
    using assms(1) ne unfolding sampleSegment_def Let_def n by simp
  finally show ?thesis unfolding line_samples_nth Let_def .
qed


lemma upt_Suc_numeral_list:
  "[0..<11] = [0, 1, 2, 3, 4, 5, 6, 7, 8, 9, 10]"
  "[0..<5] = [0, 1, 2, 3, 4]"
  by (simp_all add: upt_rec)

text \<open>
  Witness for C8, the concrete case of the claim: the line \<open>s=0, x=0, y=0, hdg=0,
  length=10\<close> at chord target 1.0 yields exactly the 11 samples \<open>x = 0, 1, ..., 10\<close> with
  \<open>y = 0\<close> and heading 0.
\<close>

theorem sampleSegmentAdaptive_line_even_witness:
  "sampleSegmentAdaptive
     \<lparr>geom_s = 0, geom_x = 0, geom_y = 0, geom_hdg = 0, geom_length = 10, geom_type = GLine\<rparr>
     \<lparr>baseStep = Some 1, maxAngle = None\<rparr>
   = Some [(0, 0, 0, 0), (1, 0, 0, 1), (2, 0, 0, 2), (3, 0, 0, 3), (4, 0, 0, 4), (5, 0, 0, 5),
           (6, 0, 0, 6), (7, 0, 0, 7), (8, 0, 0, 8), (9, 0, 0, 9), (10, 0, 0, 10)]"
proof -
  let ?g = "\<lparr>geom_s = 0, geom_x = 0, geom_y = 0, geom_hdg = 0, geom_length = 10, geom_type = GLine\<rparr>"
  have h1: "0 < geom_length ?g" by simp
  have h2: "geom_type ?g = GLine" by simp
  have c: "max 0.2 (or_default (baseStep \<lparr>baseStep = Some 1, maxAngle = None\<rparr>) 0.7) = (1::real)"
    by (simp add: or_default_def)
  show ?thesis
    using sampleSegmentAdaptive_line_even[OF h1 h2, of "\<lparr>baseStep = Some 1, maxAngle = None\<rparr>"]
    unfolding c Let_def by (simp add: upt_Suc_numeral_list)
qed

text \<open>
  Counterexample to C8 as stated: at chord target 0.1 a line of length 1 is sampled with
  the clamped target 0.2, giving 6 samples spaced 0.2 apart and not the 11 samples spaced
  \<open>1 / ceil(1 / 0.1) = 0.1\<close> apart that the unclamped formula gives.
\<close>

theorem sampleSegmentAdaptive_line_small_target_counterexample:
  "sampleSegmentAdaptive
     \<lparr>geom_s = 0, geom_x = 0, geom_y = 0, geom_hdg = 0, geom_length = 1, geom_type = GLine\<rparr>
     \<lparr>baseStep = Some (1 / 10), maxAngle = None\<rparr>
   = Some [(0, 0, 0, 0), (1 / 5, 0, 0, 1 / 5), (2 / 5, 0, 0, 2 / 5), (3 / 5, 0, 0, 3 / 5),
           (4 / 5, 0, 0, 4 / 5), (1, 0, 0, 1)]
   \<and> sampleSegmentAdaptive
     \<lparr>geom_s = 0, geom_x = 0, geom_y = 0, geom_hdg = 0, geom_length = 1, geom_type = GLine\<rparr>
     \<lparr>baseStep = Some (1 / 10), maxAngle = None\<rparr>
   \<noteq> Some (line_samples 0 0 0 (nat \<lceil>1 / (1 / 10 :: real)\<rceil>) (1 / real (nat \<lceil>1 / (1 / 10 :: real)\<rceil>)))"
proof -
  have c: "max 0.2 (or_default (Some (1 / 10)) 0.7) = (1 / 5 :: real)"
    by (simp add: or_default_def)
  have n: "nat (max 1 \<lceil>1 / (1 / 5 :: real)\<rceil>) = 5" by simp
  have r: "sampleSegmentAdaptive
     \<lparr>geom_s = 0, geom_x = 0, geom_y = 0, geom_hdg = 0, geom_length = 1, geom_type = GLine\<rparr>
     \<lparr>baseStep = Some (1 / 10), maxAngle = None\<rparr>
   = Some [(0, 0, 0, 0), (1 / 5, 0, 0, 1 / 5), (2 / 5, 0, 0, 2 / 5), (3 / 5, 0, 0, 3 / 5),
           (4 / 5, 0, 0, 4 / 5), (1, 0, 0, 1)]"
    by (simp add: sampleSegmentAdaptive_def sampleSegment_def or_default_def line_samples_def
          upt_Suc_numeral_list Let_def)
  have l: "length (line_samples 0 0 0 (nat \<lceil>1 / (1 / 10 :: real)\<rceil>) (1 / real (nat \<lceil>1 / (1 / 10 :: real)\<rceil>))) = 11"
    by (simp add: line_samples_def)
  have "length (the (Some [(0, 0, 0, 0), (1 / 5, 0, 0, 1 / 5), (2 / 5, 0, 0, 2 / 5), (3 / 5, 0, 0, 3 / 5),
           (4 / 5 :: real, 0 :: real, 0 :: real, 4 / 5 :: real), (1, 0, 0, 1)]))
      \<noteq> length (the (Some (line_samples 0 0 0 (nat \<lceil>1 / (1 / 10 :: real)\<rceil>) (1 / real (nat \<lceil>1 / (1 / 10 :: real)\<rceil>)))))"
    unfolding option.sel l by simp
  then have "Some [(0, 0, 0, 0), (1 / 5, 0, 0, 1 / 5), (2 / 5, 0, 0, 2 / 5), (3 / 5, 0, 0, 3 / 5),
           (4 / 5 :: real, 0 :: real, 0 :: real, 4 / 5 :: real), (1, 0, 0, 1)]
      \<noteq> Some (line_samples 0 0 0 (nat \<lceil>1 / (1 / 10 :: real)\<rceil>) (1 / real (nat \<lceil>1 / (1 / 10 :: real)\<rceil>)))"
    by metis
  then show ?thesis unfolding r by simp
qed

text \<open>
  Claim C2 at a failing input. The spiral loop floors its step at 0.05 after clamping it
  to the remaining length, so the last step overshoots the end whenever less than 0.05
  remains. A spiral of length 0.23 (zero curvature, base step 0.2) is sampled at arc
  lengths 0, 0.2 and 0.25: the last sample's arc length is 0.25, not 0.23.
\<close>

theorem spiral_end_overshoot:
  "sampleSegmentAdaptive
     \<lparr>geom_s = 0, geom_x = 0, geom_y = 0, geom_hdg = 0, geom_length = 23 / 100,
      geom_type = GSpiral 0 0\<rparr>
     \<lparr>baseStep = Some (1 / 5), maxAngle = Some (3 / 100)\<rparr>
   = Some [(0, 0, 0, 0), (1 / 5, 0, 0, 1 / 5), (1 / 4, 0, 0, 1 / 4)]"
proof -
  have h0: "spiral_step_size 0 0 (23 / 100) (1 / 5) (3 / 100) 0 = 1 / 5"
    by (simp add: spiral_step_size_def)
  have h1: "spiral_step_size 0 0 (23 / 100) (1 / 5) (3 / 100) (1 / 5) = 1 / 20"
    by (simp add: spiral_step_size_def)
  have r0: "rk4_step 0 0 0 (1 / 5) (0, 0, 0) = (1 / 5, 0, 0)"
    by (simp add: rk4_step_def)
  have r1: "rk4_step 0 0 (1 / 5) (1 / 20) (1 / 5, 0, 0) = (1 / 4, 0, 0)"
    by (simp add: rk4_step_def)
  have s1: "spiral_loop 0 0 (23 / 100) (1 / 5) (3 / 100) 0 (0, 0, 0) [(0, 0, 0, 0)]
      = spiral_loop 0 0 (23 / 100) (1 / 5) (3 / 100) (1 / 5) (1 / 5, 0, 0)
          [(0, 0, 0, 0), (1 / 5, 0, 0, 1 / 5)]"
    by (subst spiral_loop.simps) (simp add: h0 r0 Let_def)
  have s2: "spiral_loop 0 0 (23 / 100) (1 / 5) (3 / 100) (1 / 5) (1 / 5, 0, 0)
          [(0, 0, 0, 0), (1 / 5, 0, 0, 1 / 5)]
      = spiral_loop 0 0 (23 / 100) (1 / 5) (3 / 100) (1 / 4) (1 / 4, 0, 0)
          [(0, 0, 0, 0), (1 / 5, 0, 0, 1 / 5), (1 / 4, 0, 0, 1 / 4)]"
    by (subst spiral_loop.simps) (simp add: h1 r1 Let_def)
  have s3: "spiral_loop 0 0 (23 / 100) (1 / 5) (3 / 100) (1 / 4) (1 / 4, 0, 0)
          [(0, 0, 0, 0), (1 / 5, 0, 0, 1 / 5), (1 / 4, 0, 0, 1 / 4)]
      = [(0, 0, 0, 0), (1 / 5, 0, 0, 1 / 5), (1 / 4, 0, 0, 1 / 4)]"
    by (subst spiral_loop.simps) simp
  show ?thesis
    by (simp add: sampleSegmentAdaptive_def or_default_def s1 s2 s3)
qed

section \<open>Properties of the corner rounding (src/editor.js)\<close>

lemma vlen_nonneg: "0 \<le> vlen v"
  by (simp add: vlen_def)

text \<open>
  Claim C10. For a polyline of at least two vertices the first and the last point of
  the rounded polyline are the first and the last point of the input: copied as they are
  when the polyline has exactly two vertices, and passed through the projector round trip
  \<open>toLL (toPx p)\<close> otherwise. Only internal vertices are replaced.
\<close>

theorem smoothAxisCoords_endpoints:
  assumes "2 \<le> length (coordinates feat)"
  shows "hd (smoothAxisCoords toPx toLL roundingByAxis feat)
           = (if length (coordinates feat) = 2 then hd (coordinates feat)
              else toLL (toPx (hd (coordinates feat))))
       \<and> last (smoothAxisCoords toPx toLL roundingByAxis feat)
           = (if length (coordinates feat) = 2 then last (coordinates feat)
              else toLL (toPx (last (coordinates feat))))"
proof (cases "length (coordinates feat) = 2")
  case True
  then show ?thesis by (simp add: smoothAxisCoords_def)
next
  case False
  then have len: "2 < length (coordinates feat)" using assms by simp
  then have ne: "coordinates feat \<noteq> []" by auto
  have h: "map toPx (coordinates feat) ! 0 = toPx (hd (coordinates feat))"
    using ne by (simp add: hd_conv_nth)
  have l: "map toPx (coordinates feat) ! (length (map toPx (coordinates feat)) - 1)
             = toPx (last (coordinates feat))"
    using ne by (simp add: last_conv_nth)
  show ?thesis using False len unfolding smoothAxisCoords_def Let_def h l by simp
qed








lemma if_None_None_Some:
  "(if A then None else if B then None else Some x) = Some y \<Longrightarrow> x = y"
  by (simp split: if_splits)

lemma roundCorner_unfold:
  assumes "roundCorner toPx toLL rba feat i = Some (t, pts)"
  shows "let px = map toPx (coordinates feat);
             P0 = px ! (i - 1); P1 = px ! i; P2 = px ! (i + 1);
             v0 = vnorm (vsub P1 P0);
             v1 = vnorm (vsub P2 P1);
             l1 = vlen (vsub P1 P0);
             l2 = vlen (vsub P2 P1);
             alpha = arccos (max (- 1) (min 1 (vdot v0 v1)));
             turn = sgn (crossZ v0 v1);
             k = getRoundK rba (feat_id feat) i;
             tanHalf = tan (alpha / 2);
             t_prevN = (if i \<ge> 2
                        then tangentLengthAtLL toPx rba (feat_id feat) (coordinates feat) (i - 1)
                        else 0);
             t_nextN = (if i + 3 \<le> length px
                        then tangentLengthAtLL toPx rba (feat_id feat) (coordinates feat) (i + 1)
                        else 0)
         in t = cornerTangent k l1 l2 alpha tanHalf t_prevN t_nextN
            \<and> pts = cornerArc toLL P1 v0 v1 turn tanHalf t"
proof -
  note eq = if_None_None_Some[OF assms[unfolded roundCorner_def Let_def]]
  note e1 = eq[THEN arg_cong[where f = fst], unfolded fst_conv]
  note e2 = eq[THEN arg_cong[where f = snd], unfolded snd_conv e1]
  show ?thesis unfolding Let_def
    by (intro conjI) (rule e1[symmetric], rule e2[symmetric])
qed

lemma tangentLengthAt_outside:
  "idx = 0 \<or> idx + 1 \<ge> length coords \<Longrightarrow> tangentLengthAt toPx rba coords idx axisId = 0"
  unfolding tangentLengthAt_def by simp

lemma if3_le:
  fixes x b :: real
  assumes "0 \<le> b" "x \<le> b"
  shows "(if A then 0 else if B then 0 else if C then 0 else x) \<le> b"
  using assms by simp

lemma clamp_base_le:
  fixes g p q :: real
  assumes "0 \<le> p" "0 \<le> q"
  shows "max 0 (min g (0.49 * min p q)) \<le> 0.49 * p"
    and "max 0 (min g (0.49 * min p q)) \<le> 0.49 * q"
  using assms by (auto simp: max_def min_def)

lemma tangentLengthAt_le_next:
  "tangentLengthAt toPx rba coords idx axisId
     \<le> 0.49 * vlen (vsub (toPx (coords ! (idx + 1))) (toPx (coords ! idx)))"
  unfolding tangentLengthAt_def Let_def
  apply (rule if3_le)
   apply (simp add: vlen_nonneg)
  apply (rule clamp_base_le(2))
   apply (rule vlen_nonneg)+
  done

lemma tangentLengthAt_le_prev:
  "tangentLengthAt toPx rba coords idx axisId
     \<le> 0.49 * vlen (vsub (toPx (coords ! idx)) (toPx (coords ! (idx - 1))))"
  unfolding tangentLengthAt_def Let_def
  apply (rule if3_le)
   apply (simp add: vlen_nonneg)
  apply (rule clamp_base_le(1))
   apply (rule vlen_nonneg)+
  done

lemma t_max_simplify:
  fixes b a c :: real
  assumes "0 \<le> b" "0 \<le> a" "0 \<le> c"
  shows "max 0 (min b (max 0 (min a c))) = min b (min a c)"
  using assms by (simp add: max_def min_def)

lemma edgeLen_nonneg: "0 \<le> edgeLen toPx coords j"
  by (simp add: edgeLen_def vlen_nonneg)

lemma tangentLengthAt_le_edge_next:
  "tangentLengthAt toPx rba coords idx axisId \<le> edgeLen toPx coords idx"
proof -
  have "tangentLengthAt toPx rba coords idx axisId \<le> 0.49 * edgeLen toPx coords idx"
    unfolding edgeLen_def by (rule tangentLengthAt_le_next)
  also have "\<dots> \<le> edgeLen toPx coords idx" using edgeLen_nonneg[of toPx coords idx] by simp
  finally show ?thesis .
qed

lemma tangentLengthAt_le_edge_prev:
  assumes "1 \<le> idx"
  shows "tangentLengthAt toPx rba coords idx axisId \<le> edgeLen toPx coords (idx - 1)"
proof -
  have "tangentLengthAt toPx rba coords idx axisId
          \<le> 0.49 * vlen (vsub (toPx (coords ! idx)) (toPx (coords ! (idx - 1))))"
    by (rule tangentLengthAt_le_prev)
  also have "\<dots> = 0.49 * edgeLen toPx coords (idx - 1)"
    using assms by (simp add: edgeLen_def)
  also have "\<dots> \<le> edgeLen toPx coords (idx - 1)"
    using edgeLen_nonneg[of toPx coords "idx - 1"] by simp
  finally show ?thesis .
qed

lemma roundCorner_t_formula:
  assumes j1: "1 \<le> j" and j2: "j + 2 \<le> length (coordinates feat)"
      and r: "roundCorner toPx toLL rba feat j = Some (t, pts)"
  shows "t = max 1 (min (t_goal_spec toPx rba feat j) (t_max_spec toPx rba feat j))"
proof -
  let ?cs = "coordinates feat"
  let ?e0 = "edgeLen toPx ?cs (j - 1)"
  let ?e1 = "edgeLen toPx ?cs j"
  let ?tp = "tangentLengthAt toPx rba ?cs (j - 1) (feat_id feat)"
  let ?tn = "tangentLengthAt toPx rba ?cs (j + 1) (feat_id feat)"
  have n0: "map toPx ?cs ! (j - 1) = toPx (?cs ! (j - 1))"
   and n1: "map toPx ?cs ! j = toPx (?cs ! j)"
   and n2: "map toPx ?cs ! (j + 1) = toPx (?cs ! (j + 1))"
    using j1 j2 by simp_all
  have tp: "(if 2 \<le> j then tangentLengthAtLL toPx rba (feat_id feat) ?cs (j - 1) else 0) = ?tp"
    using j1 tangentLengthAt_outside[of "j - 1" ?cs toPx rba "feat_id feat"]
    by (auto simp: tangentLengthAtLL_def)
  have tn: "(if j + 3 \<le> length (map toPx ?cs) then tangentLengthAtLL toPx rba (feat_id feat) ?cs (j + 1) else 0) = ?tn"
    using tangentLengthAt_outside[of "j + 1" ?cs toPx rba "feat_id feat"]
    by (auto simp: tangentLengthAtLL_def)
  have l1: "vlen (vsub (toPx (?cs ! j)) (toPx (?cs ! (j - 1)))) = ?e0"
    using j1 by (simp add: edgeLen_def)
  have l2: "vlen (vsub (toPx (?cs ! (j + 1))) (toPx (?cs ! j))) = ?e1"
    by (simp add: edgeLen_def)
  have t: "t = cornerTangent (getRoundK rba (feat_id feat) j) ?e0 ?e1
                 (turnAngle toPx ?cs j) (tan (turnAngle toPx ?cs j / 2)) ?tp ?tn"
    using roundCorner_unfold[OF r]
    unfolding Let_def n0 n1 n2 tp tn l1 l2 turnAngle_def by (rule conjunct1)
  have a: "0 \<le> ?e0 - ?tp"
    using tangentLengthAt_le_edge_next[of toPx rba ?cs "j - 1" "feat_id feat"] by simp
  have c: "0 \<le> ?e1 - ?tn"
    using tangentLengthAt_le_edge_prev[of "j + 1" toPx rba ?cs "feat_id feat"] by simp
  have b: "0 \<le> 0.49 * min ?e0 ?e1"
    using edgeLen_nonneg[of toPx ?cs "j - 1"] edgeLen_nonneg[of toPx ?cs j] by simp
  show ?thesis
    unfolding t cornerTangent_def Let_def t_goal_spec_def t_max_spec_def
    unfolding t_max_simplify[OF b a c] ..
qed

lemma t_max_spec_le:
  "t_max_spec toPx rba feat i
     \<le> 0.49 * min (edgeLen toPx (coordinates feat) (i - 1)) (edgeLen toPx (coordinates feat) i)"
  unfolding t_max_spec_def by (rule min.cobounded1)

lemma floor_sum_le:
  fixes e g1 g2 m1 m2 :: real
  assumes "2 \<le> e" "m1 \<le> 0.49 * e" "m2 \<le> 0.49 * e"
  shows "max 1 (min g1 m1) + max 1 (min g2 m2) \<le> e"
proof -
  have "max 1 (min g1 m1) \<le> e / 2" using assms by (simp add: min_le_iff_disj)
  moreover have "max 1 (min g2 m2) \<le> e / 2" using assms by (simp add: min_le_iff_disj)
  ultimately show ?thesis by simp
qed

text \<open>
  How far the overlap of adjacent arcs reaches. At every rounded internal vertex the
  tangent length used is \<open>max(1, min(t_goal, t_max))\<close> with \<open>t_max = min(0.49 *
  min(edgeLenPrev, edgeLenNext), edgeLenPrev - tangentLength(prevVertex), edgeLenNext -
  tangentLength(nextVertex))\<close>: the floor of 1 is applied after the neighbour-aware cap.
  On a shared edge that is at least 2 long the floor cannot push the two tangent lengths
  past the edge, and they sum to at most its length.
\<close>

theorem adjacent_tangents_fit:
  assumes i1: "1 \<le> i" and i2: "i + 3 \<le> length (coordinates feat)"
      and r1: "roundCorner toPx toLL rba feat i = Some (t1, pts1)"
      and r2: "roundCorner toPx toLL rba feat (i + 1) = Some (t2, pts2)"
      and e2: "2 \<le> edgeLen toPx (coordinates feat) i"
  shows "t1 = max 1 (min (t_goal_spec toPx rba feat i) (t_max_spec toPx rba feat i))
       \<and> t2 = max 1 (min (t_goal_spec toPx rba feat (i + 1)) (t_max_spec toPx rba feat (i + 1)))
       \<and> t1 + t2 \<le> edgeLen toPx (coordinates feat) i"
proof -
  let ?e = "edgeLen toPx (coordinates feat) i"
  have f1: "t1 = max 1 (min (t_goal_spec toPx rba feat i) (t_max_spec toPx rba feat i))"
    using i1 i2 by (intro roundCorner_t_formula[OF _ _ r1]) simp_all
  have f2: "t2 = max 1 (min (t_goal_spec toPx rba feat (i + 1)) (t_max_spec toPx rba feat (i + 1)))"
    using i1 i2 by (intro roundCorner_t_formula[OF _ _ r2]) simp_all
  have "t_max_spec toPx rba feat i \<le> 0.49 * min (edgeLen toPx (coordinates feat) (i - 1)) ?e"
    by (rule t_max_spec_le)
  also have "\<dots> \<le> 0.49 * ?e" by simp
  finally have m1: "t_max_spec toPx rba feat i \<le> 0.49 * ?e" .
  have "t_max_spec toPx rba feat (i + 1)
          \<le> 0.49 * min (edgeLen toPx (coordinates feat) (i + 1 - 1)) (edgeLen toPx (coordinates feat) (i + 1))"
    by (rule t_max_spec_le)
  also have "\<dots> \<le> 0.49 * ?e" by simp
  finally have m2: "t_max_spec toPx rba feat (i + 1) \<le> 0.49 * ?e" .
  have "t1 + t2 \<le> ?e" unfolding f1 f2 by (rule floor_sum_le[OF e2 m1 m2])
  with f1 f2 show ?thesis by simp
qed

lemma if_None_None_SomeI:
  "\<not> A \<Longrightarrow> \<not> B \<Longrightarrow> (if A then None else if B then None else Some x) = Some x"
  by simp

lemma roundCorner_Some_cond:
  assumes j1: "1 \<le> j" and j2: "j + 2 \<le> length (coordinates feat)"
      and a: "\<not> turnAngle toPx (coordinates feat) j < 1 / 10 ^ 3"
      and tn: "crossZ (vnorm (vsub (toPx (coordinates feat ! j)) (toPx (coordinates feat ! (j - 1)))))
                      (vnorm (vsub (toPx (coordinates feat ! (j + 1))) (toPx (coordinates feat ! j)))) \<noteq> 0"
      and th: "\<not> tan (turnAngle toPx (coordinates feat) j / 2) \<le> 1 / 10 ^ 6"
  shows "\<exists>t pts. roundCorner toPx toLL rba feat j = Some (t, pts)"
proof -
  let ?cs = "coordinates feat"
  have n0: "map toPx ?cs ! (j - 1) = toPx (?cs ! (j - 1))"
   and n1: "map toPx ?cs ! j = toPx (?cs ! j)"
   and n2: "map toPx ?cs ! (j + 1) = toPx (?cs ! (j + 1))"
    using j1 j2 by simp_all
  have c1: "\<not> (turnAngle toPx ?cs j < 1 / 10 ^ 3
              \<or> sgn (crossZ (vnorm (vsub (toPx (?cs ! j)) (toPx (?cs ! (j - 1)))))
                      (vnorm (vsub (toPx (?cs ! (j + 1))) (toPx (?cs ! j))))) = 0)"
    using a tn by (simp add: sgn_zero_iff)
  show ?thesis
    unfolding roundCorner_def Let_def n0 n1 n2
    unfolding turnAngle_def[symmetric]
    by (subst if_None_None_SomeI[OF c1 th]) blast
qed

lemma vnorm_axis:
  "vnorm (2, 0) = (1, 0)" "vnorm (0, 2) = (0, 1)" "vnorm (- 2, 0) = (- 1, 0)"
  "vnorm (1, 0) = (1, 0)" "vnorm (0, 1) = (0, 1)" "vnorm (- 1, 0) = (- 1, 0)"
  by (simp_all add: vnorm_def vlen_def)

lemma half_pi_not_small: "\<not> pi / 2 < 1 / 10 ^ 3"
  using pi_ge_two by simp

lemma tan_quarter_not_small: "\<not> tan (pi / 2 / 2) \<le> 1 / 10 ^ 6"
  by (simp add: tan_45)




lemma right_angle_facts:
  "turnAngle (\<lambda>p. p) [(0, 0), (2, 0), (2, 2), (0, 2)] 1 = pi / 2"
  "turnAngle (\<lambda>p. p) [(0, 0), (2, 0), (2, 2), (0, 2)] (1 + 1) = pi / 2"
  "turnAngle (\<lambda>p. p) [(0, 0), (1, 0), (1, 1), (0, 1)] 1 = pi / 2"
  "turnAngle (\<lambda>p. p) [(0, 0), (1, 0), (1, 1), (0, 1)] 2 = pi / 2"
  "turnAngle (\<lambda>p. p) [(0, 0), (2, 0), (2, 2)] 1 = pi / 2"
  by (simp_all add: turnAngle_def vsub_def vnorm_axis vdot_def)

lemma square2_rounded:
  "\<exists>t pts. roundCorner (\<lambda>p. p) (\<lambda>p. p) (\<lambda>a. None)
             \<lparr>feat_id = ''axis_1'', coordinates = [(0, 0), (2, 0), (2, 2), (0, 2)]\<rparr> 1 = Some (t, pts)"
  "\<exists>t pts. roundCorner (\<lambda>p. p) (\<lambda>p. p) (\<lambda>a. None)
             \<lparr>feat_id = ''axis_1'', coordinates = [(0, 0), (2, 0), (2, 2), (0, 2)]\<rparr> (1 + 1) = Some (t, pts)"
proof -
  let ?F = "\<lparr>feat_id = ''axis_1'', coordinates = [(0, 0), (2, 0), (2, 2), (0 :: real, 2 :: real)]\<rparr>"
  have a0: "\<not> turnAngle (\<lambda>p. p) (coordinates ?F) 1 < 1 / 10 ^ 3"
    unfolding Feature.simps right_angle_facts by (rule half_pi_not_small)
  have h0: "\<not> tan (turnAngle (\<lambda>p. p) (coordinates ?F) 1 / 2) \<le> 1 / 10 ^ 6"
    unfolding Feature.simps right_angle_facts by (rule tan_quarter_not_small)
  have c0: "crossZ (vnorm (vsub (coordinates ?F ! 1) (coordinates ?F ! (1 - 1))))
                    (vnorm (vsub (coordinates ?F ! (1 + 1)) (coordinates ?F ! 1))) \<noteq> 0"
    by (simp add: vsub_def vnorm_axis crossZ_def)
  have i0: "1 \<le> (1 :: nat)" "1 + 2 \<le> length (coordinates ?F)" by simp_all
  show "\<exists>t pts. roundCorner (\<lambda>p. p) (\<lambda>p. p) (\<lambda>a. None) ?F 1 = Some (t, pts)"
    by (rule roundCorner_Some_cond[OF i0 a0 c0 h0])
  have a1: "\<not> turnAngle (\<lambda>p. p) (coordinates ?F) (1 + 1) < 1 / 10 ^ 3"
    unfolding Feature.simps right_angle_facts by (rule half_pi_not_small)
  have h1: "\<not> tan (turnAngle (\<lambda>p. p) (coordinates ?F) (1 + 1) / 2) \<le> 1 / 10 ^ 6"
    unfolding Feature.simps right_angle_facts by (rule tan_quarter_not_small)
  have c1: "crossZ (vnorm (vsub (coordinates ?F ! (1 + 1)) (coordinates ?F ! ((1 + 1) - 1))))
                    (vnorm (vsub (coordinates ?F ! ((1 + 1) + 1)) (coordinates ?F ! (1 + 1)))) \<noteq> 0"
    by (simp add: vsub_def vnorm_axis crossZ_def)
  have i1: "1 \<le> ((1 + 1) :: nat)" "(1 + 1) + 2 \<le> length (coordinates ?F)" by simp_all
  show "\<exists>t pts. roundCorner (\<lambda>p. p) (\<lambda>p. p) (\<lambda>a. None) ?F (1 + 1) = Some (t, pts)"
    by (rule roundCorner_Some_cond[OF i1 a1 c1 h1])
qed

text \<open>
  An instance: the polyline \<open>(0,0), (2,0), (2,2), (0,2)\<close> with default rounding; its
  vertices 1 and 2 are both rounded and share an edge of length 2.
\<close>

theorem adjacent_tangents_fit_witness:
  "fst (the (roundCorner (\<lambda>p. p) (\<lambda>p. p) (\<lambda>a. None)
             \<lparr>feat_id = ''axis_1'', coordinates = [(0, 0), (2, 0), (2, 2), (0, 2)]\<rparr> 1))
   + fst (the (roundCorner (\<lambda>p. p) (\<lambda>p. p) (\<lambda>a. None)
             \<lparr>feat_id = ''axis_1'', coordinates = [(0, 0), (2, 0), (2, 2), (0, 2)]\<rparr> (1 + 1)))
   \<le> edgeLen (\<lambda>p. p) [(0, 0), (2, 0), (2, 2), (0, 2)] 1"
proof -
  let ?F = "\<lparr>feat_id = ''axis_1'', coordinates = [(0, 0), (2, 0), (2, 2), (0 :: real, 2 :: real)]\<rparr>"
  obtain t1 pts1 where r1: "roundCorner (\<lambda>p. p) (\<lambda>p. p) (\<lambda>a. None) ?F 1 = Some (t1, pts1)"
    using square2_rounded(1) by blast
  obtain t2 pts2 where r2: "roundCorner (\<lambda>p. p) (\<lambda>p. p) (\<lambda>a. None) ?F (1 + 1) = Some (t2, pts2)"
    using square2_rounded(2) by blast
  have h1: "1 \<le> (1 :: nat)" by simp
  have h2: "1 + 3 \<le> length (coordinates ?F)" by simp
  have h3: "2 \<le> edgeLen (\<lambda>p. p) (coordinates ?F) 1"
    by (simp add: edgeLen_def vsub_def vlen_def)
  from adjacent_tangents_fit[OF h1 h2 r1 r2 h3]
  have "t1 + t2 \<le> edgeLen (\<lambda>p. p) (coordinates ?F) 1" by blast
  then show ?thesis unfolding r1 r2 by simp
qed

lemma unit_square_rounded:
  "\<exists>t pts. roundCorner (\<lambda>p. p) (\<lambda>p. p) (\<lambda>a. None)
             \<lparr>feat_id = ''axis_1'', coordinates = [(0, 0), (1, 0), (1, 1), (0, 1)]\<rparr> 1 = Some (t, pts)"
  "\<exists>t pts. roundCorner (\<lambda>p. p) (\<lambda>p. p) (\<lambda>a. None)
             \<lparr>feat_id = ''axis_1'', coordinates = [(0, 0), (1, 0), (1, 1), (0, 1)]\<rparr> 2 = Some (t, pts)"
proof -
  let ?F = "\<lparr>feat_id = ''axis_1'', coordinates = [(0, 0), (1, 0), (1, 1), (0 :: real, 1 :: real)]\<rparr>"
  have a0: "\<not> turnAngle (\<lambda>p. p) (coordinates ?F) 1 < 1 / 10 ^ 3"
    unfolding Feature.simps right_angle_facts by (rule half_pi_not_small)
  have h0: "\<not> tan (turnAngle (\<lambda>p. p) (coordinates ?F) 1 / 2) \<le> 1 / 10 ^ 6"
    unfolding Feature.simps right_angle_facts by (rule tan_quarter_not_small)
  have c0: "crossZ (vnorm (vsub (coordinates ?F ! 1) (coordinates ?F ! (1 - 1))))
                    (vnorm (vsub (coordinates ?F ! (1 + 1)) (coordinates ?F ! 1))) \<noteq> 0"
    by (simp add: vsub_def vnorm_axis crossZ_def)
  have i0: "1 \<le> (1 :: nat)" "1 + 2 \<le> length (coordinates ?F)" by simp_all
  show "\<exists>t pts. roundCorner (\<lambda>p. p) (\<lambda>p. p) (\<lambda>a. None) ?F 1 = Some (t, pts)"
    by (rule roundCorner_Some_cond[OF i0 a0 c0 h0])
  have a1: "\<not> turnAngle (\<lambda>p. p) (coordinates ?F) 2 < 1 / 10 ^ 3"
    unfolding Feature.simps right_angle_facts by (rule half_pi_not_small)
  have h1: "\<not> tan (turnAngle (\<lambda>p. p) (coordinates ?F) 2 / 2) \<le> 1 / 10 ^ 6"
    unfolding Feature.simps right_angle_facts by (rule tan_quarter_not_small)
  have c1: "crossZ (vnorm (vsub (coordinates ?F ! 2) (coordinates ?F ! (2 - 1))))
                    (vnorm (vsub (coordinates ?F ! (2 + 1)) (coordinates ?F ! 2))) \<noteq> 0"
    by (simp add: vsub_def vnorm_axis crossZ_def)
  have i1: "1 \<le> (2 :: nat)" "2 + 2 \<le> length (coordinates ?F)" by simp_all
  show "\<exists>t pts. roundCorner (\<lambda>p. p) (\<lambda>p. p) (\<lambda>a. None) ?F 2 = Some (t, pts)"
    by (rule roundCorner_Some_cond[OF i1 a1 c1 h1])
qed

lemma floor_wins:
  fixes g m :: real
  assumes "m \<le> 0.49 * min 1 1"
  shows "max 1 (min g m) = 1"
  using assms by (simp add: min_le_iff_disj)

text \<open>
  Claim C6. The tangent lengths of two consecutive rounded vertices are to sum to at most
  the length of their shared edge, and the source computes the cap \<open>t_max\<close> for this
  (\<open>neighbor-aware limit so tangency points don't overlap\<close>). The code does not keep to
  it: on the polyline \<open>(0,0), (1,0), (1,1), (0,1)\<close> with default rounding (every factor 1)
  the vertices 1 and 2 are both rounded with tangent length 1, the floor applied after the
  cap, and their shared edge has length 1, so the tangent lengths sum to 2 and the two arcs
  overlap.
\<close>

theorem adjacent_tangents_overlap_on_unit_square:
  "map_option fst (roundCorner (\<lambda>p. p) (\<lambda>p. p) (\<lambda>a. None)
             \<lparr>feat_id = ''axis_1'', coordinates = [(0, 0), (1, 0), (1, 1), (0, 1)]\<rparr> 1) = Some 1
   \<and> map_option fst (roundCorner (\<lambda>p. p) (\<lambda>p. p) (\<lambda>a. None)
             \<lparr>feat_id = ''axis_1'', coordinates = [(0, 0), (1, 0), (1, 1), (0, 1)]\<rparr> 2) = Some 1
   \<and> edgeLen (\<lambda>p. p) [(0, 0), (1, 0), (1, 1), (0, 1)] 1 = 1"
proof -
  let ?F = "\<lparr>feat_id = ''axis_1'', coordinates = [(0, 0), (1, 0), (1, 1), (0 :: real, 1 :: real)]\<rparr>"
  obtain t1 pts1 where r1: "roundCorner (\<lambda>p. p) (\<lambda>p. p) (\<lambda>a. None) ?F 1 = Some (t1, pts1)"
    using unit_square_rounded(1) by blast
  obtain t2 pts2 where r2: "roundCorner (\<lambda>p. p) (\<lambda>p. p) (\<lambda>a. None) ?F 2 = Some (t2, pts2)"
    using unit_square_rounded(2) by blast
  have e0: "edgeLen (\<lambda>p. p) (coordinates ?F) 0 = 1"
   and e1: "edgeLen (\<lambda>p. p) (coordinates ?F) 1 = 1"
   and e2: "edgeLen (\<lambda>p. p) (coordinates ?F) 2 = 1"
    by (simp_all add: edgeLen_def vsub_def vlen_def)
  have m1: "t_max_spec (\<lambda>p. p) (\<lambda>a. None) ?F 1 \<le> 0.49 * min 1 1"
    using t_max_spec_le[of "\<lambda>p. p" "\<lambda>a. None" ?F 1] unfolding e1 by (simp add: e0)
  have m2: "t_max_spec (\<lambda>p. p) (\<lambda>a. None) ?F 2 \<le> 0.49 * min 1 1"
    using t_max_spec_le[of "\<lambda>p. p" "\<lambda>a. None" ?F 2] unfolding e2 by (simp add: e1)
  have t1: "t1 = 1"
    using roundCorner_t_formula[OF _ _ r1] floor_wins[OF m1] by simp
  have t2: "t2 = 1"
    using roundCorner_t_formula[OF _ _ r2] floor_wins[OF m2] by simp
  show ?thesis unfolding r1 r2 t1 t2 using e1 by simp
qed




text \<open>
  Witness for C10: the corner \<open>(0,0), (2,0), (2,2)\<close> with default rounding and the identity
  projector keeps its end points \<open>(0,0)\<close> and \<open>(2,2)\<close>.
\<close>

theorem smoothAxisCoords_endpoints_witness:
  "hd (smoothAxisCoords (\<lambda>p. p) (\<lambda>p. p) (\<lambda>a. None)
         \<lparr>feat_id = ''axis_1'', coordinates = [(0, 0), (2, 0), (2, 2)]\<rparr>) = (0, 0)
   \<and> last (smoothAxisCoords (\<lambda>p. p) (\<lambda>p. p) (\<lambda>a. None)
         \<lparr>feat_id = ''axis_1'', coordinates = [(0, 0), (2, 0), (2, 2)]\<rparr>) = (2, 2)"
proof -
  let ?F = "\<lparr>feat_id = ''axis_1'', coordinates = [(0, 0), (2, 0), (2 :: real, 2 :: real)]\<rparr>"
  have h: "2 \<le> length (coordinates ?F)" by simp
  from smoothAxisCoords_endpoints[OF h, of "\<lambda>p. p" "\<lambda>p. p" "\<lambda>a. None"]
  show ?thesis by simp
qed

text \<open>
  \<open>tangentLengthAt\<close> at an exact U-turn: on the polyline \<open>(0,0), (2,0), (0,0)\<close> with the
  default factor the tangent of the half angle is the large finite number the language
  computes, and the result is the cap \<open>0.49 * 2\<close>.
\<close>

lemma u_turn_goal:
  "98 / 100 \<le> 2 / pi * 16331239353195370"
proof -
  have "pi \<le> 4" using pi_less_4 by simp
  then have "2 / 4 \<le> 2 / pi" using pi_gt_zero by (intro divide_left_mono) simp_all
  then have "(2 / 4) * 16331239353195370 \<le> 2 / pi * 16331239353195370"
    by (intro mult_right_mono) simp_all
  then show ?thesis by simp
qed

lemma tangentLengthAt_u_turn:
  "tangentLengthAt (\<lambda>p. p) (\<lambda>a. None) [(0, 0), (2, 0), (0, 0)] 1 ''axis_1'' = 98 / 100"
proof -
  have n: "vnorm (2, 0) = (1, 0)" "vnorm (- 2, 0) = (- 1, 0)" "vlen (2, 0) = 2" "vlen (- 2, 0) = 2"
    by (simp_all add: vnorm_def vlen_def)
  have a: "\<not> \<not> pi > 1 / 10 ^ 3" using pi_ge_two by simp
  show ?thesis
    unfolding tangentLengthAt_def Let_def
    using a u_turn_goal
    by (simp add: vsub_def n tanHalfAngle_def getRoundK_def)
qed

section \<open>Properties of the lane runs (src/index.js)\<close>

subsection \<open>The winding of the lane polygons\<close>


























text \<open>
  The polygon of the right lane assembled the other way round, as the outer boundary
  followed by the reversed inner boundary, does not wind as the specification says.
\<close>

lemma straight_centerline:
  assumes "onCenterline [(0, 0, 0, 0), (10, 0, 0, 10)] p"
  shows "\<exists>x s. p = (x, 0, 0, s)"
  using assms unfolding onCenterline_def
  by (auto simp: interpPoint_def less_Suc_eq)

lemma straight_boundaryPoints:
  assumes "boundaryPoints SideRight [(0, 0, 0, 0), (10, 0, 0, 10)] (x1, y1, th1, s1) (x2, y2, th2, s2)"
  shows "y1 < y2"
proof -
  from assms obtain p a b where c: "onCenterline [(0, 0, 0, 0), (10, 0, 0, 10)] p"
    and o: "(x1, y1, th1, s1) = offsetPoint p a" and i: "(x2, y2, th2, s2) = offsetPoint p b"
    and ab: "a < b"
    unfolding boundaryPoints_def by auto
  from straight_centerline[OF c] obtain x s where p: "p = (x, 0, 0, s)" by blast
  from o i ab show ?thesis by (simp add: p offsetPoint_def Let_def)
qed

lemma wrong_assembly_rejected:
  "\<not> windsAs (\<lambda>p. p) SideRight [(0, 0, 0, 0), (10, 0, 0, 10)]
        \<lparr>f_side = SideRight, f_laneId = LaneNum (- 1), f_laneType = ''driving'', f_s0 = 0, f_s1 = 10,
         f_ring = [Some (0, - (7 / 2)), Some (10, - (7 / 2)), Some (10, 0), Some (0, 0), Some (0, - (7 / 2))]\<rparr>"
proof
  assume "windsAs (\<lambda>p. p) SideRight [(0, 0, 0, 0), (10, 0, 0, 10)]
        \<lparr>f_side = SideRight, f_laneId = LaneNum (- 1), f_laneType = ''driving'', f_s0 = 0, f_s1 = 10,
         f_ring = [Some (0, - (7 / 2)), Some (10, - (7 / 2)), Some (10, 0), Some (0, 0), Some (0, - (7 / 2))]\<rparr>"
  then obtain outer inner :: "Sample list" where
        len: "2 \<le> length outer"
    and bp: "list_all2 (boundaryPoints SideRight [(0, 0, 0, 0), (10, 0, 0, 10)]) outer inner"
    and ring: "[Some (0 :: real, - (7 / 2) :: real), Some (10, - (7 / 2)), Some (10, 0), Some (0, 0), Some (0, - (7 / 2))]
               = map (\<lambda>(x, y, th, s). Some (x, y)) inner
                 @ rev (map (\<lambda>(x, y, th, s). Some (x, y)) outer)
                 @ [(\<lambda>(x, y, th, s). Some (x, y)) (hd inner)]"
    unfolding windsAs_def by auto
  have le: "length inner = length outer" using bp by (simp add: list_all2_lengthD)
  have "length [Some (0 :: real, - (7 / 2) :: real), Some (10, - (7 / 2)), Some (10, 0), Some (0, 0), Some (0, - (7 / 2))]
          = length inner + length outer + 1"
    by (subst ring) simp
  then have l2: "length outer = 2" "length inner = 2" using le by simp_all
  then obtain o1 o2 i1 i2 where oi: "outer = [o1, o2]" "inner = [i1, i2]"
    by (metis (no_types, opaque_lifting) One_nat_def Suc_1 length_0_conv length_Suc_conv)
  obtain ox oy oth os where o1: "o1 = (ox, oy, oth, os)" by (cases o1) auto
  obtain ix iy ith is' where i1: "i1 = (ix, iy, ith, is')" by (cases i1) auto
  from ring have "iy = - (7 / 2)" "oy = 0"
    by (auto simp: oi o1 i1 split: prod.splits)
  moreover have "oy < iy"
    using bp straight_boundaryPoints unfolding oi o1 i1 by auto
  ultimately show False by simp
qed

subsection \<open>The boundary of a run where the width crosses the threshold\<close>


























text \<open>
  Where the track has no lane at the previous sample the loop has not evaluated a width
  there and \<open>prevWidth\<close> is still 0, so the boundary block runs although no width crossed
  \<open>EPS\<close>; it then takes \<open>w0\<close> in the previous section from the lane with the id of the
  current node. On \<open>joinRoad\<close> that lane is 3.5 wide, \<open>t\<close> is 6.99 and the boundary pair is
  placed at arc length 10.99, outside of the two samples at 4 and 5.
\<close>

lemma join_sec: "sectionAt joinRoad 4 = Some 0" "sectionAt joinRoad 5 = Some (Suc 0)"
  by (simp_all add: sectionAt_def joinRoad_def)

lemma join_node:
  "trackNodeAt lateTrack (Some 0) = None"
  "trackNodeAt lateTrack (Some (Suc 0))
     = Some \<lparr>node_si = 1, node_id = 1, node_pred = None, node_succ = None, node_type = ''driving''\<rparr>"
  by (simp_all add: trackNodeAt_def lateTrack_def)

lemma join_track:
  "track_side lateTrack = SideLeft"
  "track_nodes lateTrack
     = [\<lparr>node_si = 1, node_id = 1, node_pred = None, node_succ = None, node_type = ''driving''\<rparr>]"
  by (simp_all add: lateTrack_def)

lemma join_w:
  "laneWidthIn joinRoad SideLeft (Some 0) 1 4 = 7 / 2"
  "laneWidthIn joinRoad SideLeft (Some (Suc 0)) 1 5 = 3"
  by (simp_all add: laneWidthIn_def sectionLanes_def sectionStart_def joinRoad_def laneWidthAt_def Let_def)

lemma join_o:
  "outerOffsetIn joinRoad SideLeft (Some 0) 1 4 = 7 / 2"
  "outerOffsetIn joinRoad SideLeft (Some (Suc 0)) 1 5 = 3"
  by (simp_all add: outerOffsetIn_def sectionLanes_def sectionStart_def joinRoad_def laneWidthAt_def
        laneOffsetAt_def Let_def)

lemma join_ty: "laneTypeNow joinRoad SideLeft (Some (Suc 0)) 1 = ''driving''"
  by (simp add: laneTypeNow_def sectionLanes_def joinRoad_def)

lemma join_step0:
  "laneRunStep (\<lambda>p. p) joinRoad [(4, 0, 0, 4), (5, 0, 0, 5)] lateTrack
     \<lparr>features = [], runOuter = [], runInner = [], active = False, prevWidth = 0, runType = None\<rparr> 0
   = \<lparr>features = [], runOuter = [], runInner = [], active = False, prevWidth = 0, runType = None\<rparr>"
  unfolding laneRunStep_def
  by (simp add: sample_s_def join_sec join_node Let_def)

lemma join_step1:
  "laneRunStep (\<lambda>p. p) joinRoad [(4, 0, 0, 4), (5, 0, 0, 5)] lateTrack
     \<lparr>features = [], runOuter = [], runInner = [], active = False, prevWidth = 0, runType = None\<rparr> 1
   = \<lparr>features = [],
      runOuter = [(1099 / 100, 5 / 1000, 0, 1099 / 100), (5, 3, 0, 5)],
      runInner = [(1099 / 100, 0, 0, 1099 / 100), (5, 0, 0, 5)],
      active = True, prevWidth = 3, runType = Some ''driving''\<rparr>"
  unfolding laneRunStep_def
  by (simp add: sample_s_def join_sec join_node join_track join_w join_o join_ty EPS_def Let_def
        boundaryPair_def boundaryParam_def boundaryWidth0_def interpPoint_def offsetPoint_def)

lemma two_samples': "[0..<length [(4 :: real, 0 :: real, 0 :: real, 4 :: real), (5, 0, 0, 5)]] = [0, 1]"
  by (simp add: upt_rec)

lemma boundary_without_crossing:
  "buildLaneRunsTrack (\<lambda>p. p) joinRoad [(4, 0, 0, 4), (5, 0, 0, 5)] lateTrack
     = [\<lparr>f_side = SideLeft, f_laneId = LaneNum 1, f_laneType = ''driving'',
         f_s0 = 1099 / 100, f_s1 = 5,
         f_ring = [Some (1099 / 100, 5 / 1000), Some (5, 3), Some (5, 0), Some (1099 / 100, 0),
                   Some (1099 / 100, 5 / 1000)]\<rparr>]"
  unfolding buildLaneRunsTrack_def Let_def two_samples' foldl.simps join_step0 join_step1
  by (simp add: runFeature_def toPolygon_def runTypeOr_def sample_s_def join_track)

section \<open>Export followed by ingestion of the editable axes (src/editor.js)\<close>

lemma copy_pairs: "map (\<lambda>c. (fst c, snd c)) cs = cs"
  by (induction cs) auto

lemma ingest_loop_entries:
  assumes "distinct (map fst rest)"
      and "fst ` set rest \<inter> fst ` set (st_roadsById acc) = {}"
      and "\<forall>a\<in>fst ` set rest. a \<noteq> []"
  shows "st_roadsById
           (ingest_loop acc
              (map (\<lambda>(a, f). Some \<lparr>rec_id = Some a, rec_coords = Some (C a f),
                                   rec_rounding = Some (T a)\<rparr>) rest))
         = st_roadsById acc @ map (\<lambda>(a, f). (a, \<lparr>axis_id = a, axis_coordinates = C a f\<rparr>)) rest
       \<and> st_roundingByAxis
           (ingest_loop acc
              (map (\<lambda>(a, f). Some \<lparr>rec_id = Some a, rec_coords = Some (C a f),
                                   rec_rounding = Some (T a)\<rparr>) rest))
         = (\<lambda>a. if a \<in> fst ` set rest then Some (T a) else st_roundingByAxis acc a)"
  using assms
proof (induction rest arbitrary: acc)
  case Nil
  then show ?case by simp
next
  case (Cons p rest)
  obtain a f where p: "p = (a, f)" by (cases p) auto
  let ?feat = "\<lparr>axis_id = a, axis_coordinates = C a f\<rparr>"
  let ?acc' = "acc\<lparr>st_roadsById := st_roadsById acc @ [(a, ?feat)],
                   st_roundingByAxis := (st_roundingByAxis acc)(a \<mapsto> T a),
                   st_importedAxisIds := insert a (st_importedAxisIds acc)\<rparr>"
  have ane: "a \<noteq> []" using Cons.prems(3) p by simp
  have notin: "a \<notin> set (map fst (st_roadsById acc))" using Cons.prems(2) p by auto
  have ms: "mapSet a ?feat (st_roadsById acc) = st_roadsById acc @ [(a, ?feat)]"
    using notin by (simp add: mapSet_def)
  have step: "ingest_loop acc
              (map (\<lambda>(a, f). Some \<lparr>rec_id = Some a, rec_coords = Some (C a f),
                                   rec_rounding = Some (T a)\<rparr>) (p # rest))
            = ingest_loop ?acc'
              (map (\<lambda>(a, f). Some \<lparr>rec_id = Some a, rec_coords = Some (C a f),
                                   rec_rounding = Some (T a)\<rparr>) rest)"
    using ane by (simp add: p Let_def ms copy_pairs)
  have d: "distinct (map fst rest)" using Cons.prems(1) by simp
  have arest: "a \<notin> fst ` set rest" using Cons.prems(1) p by auto
  have disj: "fst ` set rest \<inter> fst ` set (st_roadsById ?acc') = {}"
    using Cons.prems(2) arest p by auto
  have ne: "\<forall>a\<in>fst ` set rest. a \<noteq> []" using Cons.prems(3) by simp
  note IH = Cons.IH[OF d disj ne]
  show ?case
    unfolding step using IH arest by (auto simp: p fun_eq_iff)
qed

lemma payload_entries:
  "readEditorAxes (JSON_stringify (axesBlob st))
     = map (\<lambda>(a, f). Some \<lparr>rec_id = Some a,
                            rec_coords = Some (map (\<lambda>(x, y). (throughJSON x, throughJSON y))
                                                   (axis_coordinates f)),
                            rec_rounding = Some (map (\<lambda>(i, v). (i, throughJSON v))
                                                     (case st_roundingByAxis st a of
                                                        None \<Rightarrow> [] | Some m \<Rightarrow> m))\<rparr>)
           (st_roadsById st)"
  by (simp add: readEditorAxes_def JSON_stringify_def axesBlob_def throughJSON_def copy_pairs
        comp_def split_def)

lemma roundtrip_state:
  assumes "distinct (map fst (st_roadsById st))"
      and "\<forall>a\<in>fst ` set (st_roadsById st). a \<noteq> []"
  shows "st_roadsById (exportThenIngest st st0)
           = map (\<lambda>(a, f). (a, \<lparr>axis_id = a,
                                  axis_coordinates = map (\<lambda>(x, y). (throughJSON x, throughJSON y))
                                                         (axis_coordinates f)\<rparr>))
                 (st_roadsById st)"
    and "st_roundingByAxis (exportThenIngest st st0)
           = (\<lambda>a. if a \<in> fst ` set (st_roadsById st)
                   then Some (map (\<lambda>(i, v). (i, throughJSON v))
                                  (case st_roundingByAxis st a of None \<Rightarrow> [] | Some m \<Rightarrow> m))
                   else None)"
proof -
  let ?acc = "st0\<lparr>st_roadsById := [], st_roundingByAxis := (\<lambda>a. None), st_importedAxisIds := {}\<rparr>"
  have disj: "fst ` set (st_roadsById st) \<inter> fst ` set (st_roadsById ?acc) = {}" by simp
  have sel: "st_roundingByAxis ?acc = (\<lambda>a. None)" "st_roadsById ?acc = []" by simp_all
  note B = ingest_loop_entries[OF assms(1) disj assms(2),
             where C = "\<lambda>a f. map (\<lambda>(x, y). (throughJSON x, throughJSON y)) (axis_coordinates f)"
               and T = "\<lambda>a. map (\<lambda>(i, v). (i, throughJSON v))
                               (case st_roundingByAxis st a of None \<Rightarrow> [] | Some m \<Rightarrow> m)",
             unfolded sel append_Nil]
  show "st_roadsById (exportThenIngest st st0)
           = map (\<lambda>(a, f). (a, \<lparr>axis_id = a,
                                  axis_coordinates = map (\<lambda>(x, y). (throughJSON x, throughJSON y))
                                                         (axis_coordinates f)\<rparr>))
                 (st_roadsById st)"
    unfolding exportThenIngest_def editorIngestEditorAxes_def payload_entries
    using B by (rule conjunct1)
  show "st_roundingByAxis (exportThenIngest st st0)
           = (\<lambda>a. if a \<in> fst ` set (st_roadsById st)
                   then Some (map (\<lambda>(i, v). (i, throughJSON v))
                                  (case st_roundingByAxis st a of None \<Rightarrow> [] | Some m \<Rightarrow> m))
                   else None)"
    unfolding exportThenIngest_def editorIngestEditorAxes_def payload_entries
    using B by (rule conjunct2)
qed

lemma throughJSON_cases:
  "throughJSON (Num r) = Num r" "throughJSON NegZero = Num 0" "throughJSON NaN = Null"
  "throughJSON PosInf = Null" "throughJSON NegInf = Null" "throughJSON Null = Null"
  by (simp_all add: throughJSON_def JSON_stringify_number_def JSON_parse_number_def)

lemma throughJSON_finite:
  assumes "finiteNumber v"
  shows "throughJSON v = v"
  using assms by (cases v) (simp_all add: finiteNumber_def throughJSON_cases)

lemma coords_finite:
  assumes "\<forall>(x, y)\<in>set cs. finiteNumber x \<and> finiteNumber y"
  shows "map (\<lambda>(x, y). (throughJSON x, throughJSON y)) cs = cs"
  using assms by (induction cs) (auto simp: throughJSON_finite)

lemma table_finite:
  assumes "\<forall>(i, v)\<in>set m. finiteNumber v"
  shows "map (\<lambda>(i, v). (i, throughJSON v)) m = m"
  using assms by (induction m) (auto simp: throughJSON_finite)

text \<open>
  Claim C7. Exporting and ingesting the embedded payload again restores every axis under
  its id and in the same order; the ids are the keys of a \<open>Map\<close>, hence distinct, and
  non-empty strings, as \<open>nextId\<close> makes them, and the editor that ingests may hold
  anything, since ingestion clears it first. Every coordinate and every rounding factor
  comes back as \<open>throughJSON\<close> of itself. So the vertex lists come back identical when all
  coordinates are finite numbers other than negative zero, and the rounding table of an
  axis comes back identical when the axis has one and its factors are such numbers. An
  axis without a rounding table comes back with the empty table.
\<close>

theorem export_ingest_roundtrip:
  assumes "distinct (map fst (st_roadsById st))"
      and "\<forall>a\<in>fst ` set (st_roadsById st). a \<noteq> []"
  shows "st_roadsById (exportThenIngest st st0)
           = map (\<lambda>(a, f). (a, \<lparr>axis_id = a,
                                  axis_coordinates = map (\<lambda>(x, y). (throughJSON x, throughJSON y))
                                                         (axis_coordinates f)\<rparr>))
                 (st_roadsById st)
       \<and> (\<forall>(a, f)\<in>set (st_roadsById st).
             st_roundingByAxis (exportThenIngest st st0) a
               = Some (map (\<lambda>(i, v). (i, throughJSON v))
                           (case st_roundingByAxis st a of None \<Rightarrow> [] | Some m \<Rightarrow> m)))
       \<and> ((\<forall>(a, f)\<in>set (st_roadsById st).
              \<forall>(x, y)\<in>set (axis_coordinates f). finiteNumber x \<and> finiteNumber y)
            \<longrightarrow> map (\<lambda>(a, f). (a, axis_coordinates f)) (st_roadsById (exportThenIngest st st0))
                  = map (\<lambda>(a, f). (a, axis_coordinates f)) (st_roadsById st))
       \<and> (\<forall>(a, f)\<in>set (st_roadsById st). \<forall>m.
             st_roundingByAxis st a = Some m \<and> (\<forall>(i, v)\<in>set m. finiteNumber v)
             \<longrightarrow> st_roundingByAxis (exportThenIngest st st0) a = Some m)
       \<and> (\<forall>(a, f)\<in>set (st_roadsById st).
             st_roundingByAxis st a = None
             \<longrightarrow> st_roundingByAxis (exportThenIngest st st0) a = Some [])"
proof -
  note R = roundtrip_state[OF assms, of st0]
  have key: "a \<in> fst ` set (st_roadsById st)" if "(a, f) \<in> set (st_roadsById st)" for a f
    using that by force
  have c1: "\<forall>(a, f)\<in>set (st_roadsById st).
             st_roundingByAxis (exportThenIngest st st0) a
               = Some (map (\<lambda>(i, v). (i, throughJSON v))
                           (case st_roundingByAxis st a of None \<Rightarrow> [] | Some m \<Rightarrow> m))"
    unfolding R(2) using key by auto
  have c2: "(\<forall>(a, f)\<in>set (st_roadsById st).
              \<forall>(x, y)\<in>set (axis_coordinates f). finiteNumber x \<and> finiteNumber y)
            \<longrightarrow> map (\<lambda>(a, f). (a, axis_coordinates f)) (st_roadsById (exportThenIngest st st0))
                  = map (\<lambda>(a, f). (a, axis_coordinates f)) (st_roadsById st)"
  proof
    assume fin: "\<forall>(a, f)\<in>set (st_roadsById st).
              \<forall>(x, y)\<in>set (axis_coordinates f). finiteNumber x \<and> finiteNumber y"
    have "map (\<lambda>(x, y). (throughJSON x, throughJSON y)) (axis_coordinates f) = axis_coordinates f"
      if "(a, f) \<in> set (st_roadsById st)" for a f
      using fin that by (intro coords_finite) auto
    then show "map (\<lambda>(a, f). (a, axis_coordinates f)) (st_roadsById (exportThenIngest st st0))
                  = map (\<lambda>(a, f). (a, axis_coordinates f)) (st_roadsById st)"
      unfolding R(1) by (auto simp: comp_def split_def)
  qed
  have c3: "\<forall>(a, f)\<in>set (st_roadsById st). \<forall>m.
             st_roundingByAxis st a = Some m \<and> (\<forall>(i, v)\<in>set m. finiteNumber v)
             \<longrightarrow> st_roundingByAxis (exportThenIngest st st0) a = Some m"
    unfolding R(2) using key by (auto simp: table_finite)
  have c4: "\<forall>(a, f)\<in>set (st_roadsById st).
             st_roundingByAxis st a = None
             \<longrightarrow> st_roundingByAxis (exportThenIngest st st0) a = Some []"
    unfolding R(2) using key by auto
  from R(1) c1 c2 c3 c4 show ?thesis by blast
qed

lemma twoAxes_fields:
  "st_roadsById twoAxes
     = [(''axis_1'', \<lparr>axis_id = ''axis_1'',
                       axis_coordinates = [(Num 0, Num 0), (Num 2, Num 0), (Num 2, Num 2)]\<rparr>),
        (''axis_2'', \<lparr>axis_id = ''axis_2'', axis_coordinates = [(Num 5, Num 1), (Num 7, Num 3)]\<rparr>)]"
  "st_roundingByAxis twoAxes ''axis_1'' = Some [(1, Num (1 / 2))]"
  "st_roundingByAxis twoAxes ''axis_2'' = Some []"
  by (simp_all add: twoAxes_def)

text \<open>
  Witness for C7: the two axes of \<open>twoAxes\<close> exported and ingested into \<open>usedEditor\<close>,
  which held another \<open>axis_1\<close> with another rounding factor.
\<close>

theorem export_ingest_roundtrip_witness:
  "st_roadsById (exportThenIngest twoAxes usedEditor) = st_roadsById twoAxes
   \<and> st_roundingByAxis (exportThenIngest twoAxes usedEditor) ''axis_1''
       = st_roundingByAxis twoAxes ''axis_1''
   \<and> st_roundingByAxis (exportThenIngest twoAxes usedEditor) ''axis_2''
       = st_roundingByAxis twoAxes ''axis_2''"
proof -
  have d: "distinct (map fst (st_roadsById twoAxes))"
    by (simp add: twoAxes_fields)
  have n: "\<forall>a\<in>fst ` set (st_roadsById twoAxes). a \<noteq> []"
    by (simp add: twoAxes_fields)
  note T = export_ingest_roundtrip[OF d n, of usedEditor]
  have roads: "st_roadsById (exportThenIngest twoAxes usedEditor) = st_roadsById twoAxes"
    using T by (simp add: twoAxes_fields throughJSON_cases)
  have tabs: "\<forall>(a, f)\<in>set (st_roadsById twoAxes). \<forall>m.
             st_roundingByAxis twoAxes a = Some m \<and> (\<forall>(i, v)\<in>set m. finiteNumber v)
             \<longrightarrow> st_roundingByAxis (exportThenIngest twoAxes usedEditor) a = Some m"
    using T by blast
  have t1: "st_roundingByAxis (exportThenIngest twoAxes usedEditor) ''axis_1''
              = st_roundingByAxis twoAxes ''axis_1''"
    using tabs by (simp add: twoAxes_fields finiteNumber_def)
  have t2: "st_roundingByAxis (exportThenIngest twoAxes usedEditor) ''axis_2''
              = st_roundingByAxis twoAxes ''axis_2''"
    using tabs by (simp add: twoAxes_fields finiteNumber_def)
  from roads t1 t2 show ?thesis by simp
qed

lemma negZero_payload:
  "readEditorAxes (JSON_stringify (axesBlob negZeroAxes))
     = [Some \<lparr>rec_id = Some ''axis_1'', rec_coords = Some [(Num 0, Num 1), (Num 2, Num 3)],
              rec_rounding = Some []\<rparr>]"
  by (simp add: readEditorAxes_def JSON_stringify_def axesBlob_def negZeroAxes_def
        JSON_stringify_number_def JSON_parse_number_def)

text \<open>
  Counterexample to C7 as stated: the axis of \<open>negZeroAxes\<close> has the coordinate negative
  zero and no rounding table. After export and ingestion the coordinate is \<open>+0\<close>, since
  \<open>JSON.stringify\<close> writes negative zero as \<open>0\<close>, and the axis has the empty rounding table
  that \<open>roundingByAxis.get(id) || {}\<close> exported for it.
\<close>

theorem export_ingest_negative_zero_counterexample:
  "map (\<lambda>(a, f). (a, axis_coordinates f)) (st_roadsById (exportThenIngest negZeroAxes usedEditor))
     = [(''axis_1'', [(Num 0, Num 1), (Num 2, Num 3)])]
   \<and> map (\<lambda>(a, f). (a, axis_coordinates f)) (st_roadsById negZeroAxes)
     = [(''axis_1'', [(NegZero, Num 1), (Num 2, Num 3)])]
   \<and> st_roundingByAxis (exportThenIngest negZeroAxes usedEditor) ''axis_1'' = Some []
   \<and> st_roundingByAxis negZeroAxes ''axis_1'' = None"
  unfolding exportThenIngest_def negZero_payload
  by (simp add: editorIngestEditorAxes_def mapSet_def negZeroAxes_def Let_def)

text \<open>The id that \<open>nextId\<close> makes after one axis was drawn.\<close>

lemma nextId_example: "fst (nextId usedEditor) = ''axis_2''"
  by (simp add: nextId_def usedEditor_def decimal.simps)

section \<open>The parser keeps every road (src/xodr/opendrive.js)\<close>

lemma foldl_pushRoad:
  "foldl (pushRoad Number) acc rs
     = acc @ map (\<lambda>r. \<lparr>road_id = getAttribute r ''id'',
                         road_name = (case orAttr (getAttribute r ''name'') None of None \<Rightarrow> [] | Some t \<Rightarrow> t),
                         road_length = num Number (getAttribute r ''length''),
                         road_planView = readPlanView Number r\<rparr>) rs"
  by (induction rs arbitrary: acc) (simp_all add: pushRoad_def)

lemma foldl_pushGeometry_length:
  "length (foldl (pushGeometry Number) acc gs)
     = length acc + length (filter (\<lambda>g. geometryType Number g \<noteq> None) gs)"
  by (induction gs arbitrary: acc) (auto simp: pushGeometry_def split: option.splits)

text \<open>
  Claim C4. A document with a \<open>parsererror\<close> element makes the parser fail with the
  error \<open>XML parse error\<close> and no model. A document without one always yields a model,
  and the model has one road record for every \<open>road\<close> element under \<open>OpenDRIVE\<close>, in
  document order: the id of the record is the \<open>id\<close> attribute or \<open>null\<close>, its length is the
  \<open>length\<close> attribute when that is a finite number and \<open>undefined\<close> otherwise, and its
  plan view has one entry for every \<open>geometry\<close> element of a known type. No road is left
  out for a missing id, length or geometry, and no road makes the parse fail.
\<close>

theorem parseOpenDrive_keeps_every_road:
  "(querySelector ''parsererror'' doc \<noteq> None
      \<longrightarrow> parseOpenDrive Number doc = Inl (Error ''XML parse error''))
   \<and> (querySelector ''parsererror'' doc = None
      \<longrightarrow> (\<exists>m. parseOpenDrive Number doc = Inr m
             \<and> length (roads m) = length (querySelectorAll_child ''OpenDRIVE'' ''road'' doc)
             \<and> map road_id (roads m)
                 = map (\<lambda>r. getAttribute r ''id'') (querySelectorAll_child ''OpenDRIVE'' ''road'' doc)
             \<and> map road_length (roads m)
                 = map (\<lambda>r. num Number (getAttribute r ''length''))
                     (querySelectorAll_child ''OpenDRIVE'' ''road'' doc)
             \<and> map (\<lambda>r. length (road_planView r)) (roads m)
                 = map (\<lambda>r. length (filter (\<lambda>g. geometryType Number g \<noteq> None)
                                       (concat (map (scopeChildren ''geometry'')
                                                    (scopeChildren ''planView'' r)))))
                     (querySelectorAll_child ''OpenDRIVE'' ''road'' doc)))"
proof (intro conjI impI)
  assume "querySelector ''parsererror'' doc \<noteq> None"
  then show "parseOpenDrive Number doc = Inl (Error ''XML parse error'')"
    by (auto simp: parseOpenDrive_def)
next
  assume ok: "querySelector ''parsererror'' doc = None"
  let ?rs = "querySelectorAll_child ''OpenDRIVE'' ''road'' doc"
  let ?m = "\<lparr>roads = foldl (pushRoad Number) [] ?rs\<rparr>"
  have p: "parseOpenDrive Number doc = Inr ?m"
    using ok by (simp add: parseOpenDrive_def)
  have pv: "length (readPlanView Number r)
              = length (filter (\<lambda>g. geometryType Number g \<noteq> None)
                         (concat (map (scopeChildren ''geometry'') (scopeChildren ''planView'' r))))" for r
    unfolding readPlanView_def foldl_pushGeometry_length by simp
  have "length (roads ?m) = length ?rs"
    and "map road_id (roads ?m) = map (\<lambda>r. getAttribute r ''id'') ?rs"
    and "map road_length (roads ?m) = map (\<lambda>r. num Number (getAttribute r ''length'')) ?rs"
    and "map (\<lambda>r. length (road_planView r)) (roads ?m)
           = map (\<lambda>r. length (filter (\<lambda>g. geometryType Number g \<noteq> None)
                                 (concat (map (scopeChildren ''geometry'')
                                              (scopeChildren ''planView'' r))))) ?rs"
    by (simp_all add: foldl_pushRoad comp_def pv)
  with p show "\<exists>m. parseOpenDrive Number doc = Inr m
             \<and> length (roads m) = length ?rs
             \<and> map road_id (roads m) = map (\<lambda>r. getAttribute r ''id'') ?rs
             \<and> map road_length (roads m) = map (\<lambda>r. num Number (getAttribute r ''length'')) ?rs
             \<and> map (\<lambda>r. length (road_planView r)) (roads m)
                 = map (\<lambda>r. length (filter (\<lambda>g. geometryType Number g \<noteq> None)
                                       (concat (map (scopeChildren ''geometry'')
                                                    (scopeChildren ''planView'' r))))) ?rs"
    by blast
qed

lemma looseDoc_roads:
  "querySelectorAll_child ''OpenDRIVE'' ''road'' looseDoc
     = [Elem ''road'' [] [],
        Elem ''road'' [(''id'', ''7''), (''name'', ''main''), (''length'', ''10'')]
          [Elem ''planView'' []
             [Elem ''geometry''
                [(''s'', ''0''), (''x'', ''0''), (''y'', ''0''), (''hdg'', ''0''), (''length'', ''10'')]
                [Elem ''line'' [] []]]]]"
  by (simp add: querySelectorAll_child_def looseDoc_def)

lemma looseDoc_parses: "querySelector ''parsererror'' looseDoc = None"
  by (simp add: querySelector_def looseDoc_def)

lemma brokenDoc_error: "querySelector ''parsererror'' brokenDoc \<noteq> None"
  by (simp add: querySelector_def brokenDoc_def)

lemma Number_decimal_examples:
  "Number_decimal ''0'' = Finite 0" "Number_decimal ''10'' = Finite 10"
  by (simp_all add: Number_decimal_def digitTable_def)

text \<open>
  Counterexample for C4 as stated: \<open>looseDoc\<close> parses, its first road has no id, no length
  and no geometry, and the model holds that road, with id \<open>null\<close>, length \<open>undefined\<close> and an
  empty plan view, before the complete one.
\<close>

theorem parseOpenDrive_missing_fields_counterexample:
  "parseOpenDrive Number_decimal looseDoc
     = Inr \<lparr>roads =
         [\<lparr>road_id = None, road_name = '''', road_length = None, road_planView = []\<rparr>,
          \<lparr>road_id = Some ''7'', road_name = ''main'', road_length = Some 10,
            road_planView =
              [\<lparr>pg_s = Some 0, pg_x = Some 0, pg_y = Some 0, pg_hdg = Some 0,
                pg_length = Some 10, pg_type = TLine\<rparr>]\<rparr>]\<rparr>
   \<and> map hasRequiredFields
         [\<lparr>road_id = None, road_name = '''', road_length = None, road_planView = []\<rparr>,
          \<lparr>road_id = Some ''7'', road_name = ''main'', road_length = Some 10,
            road_planView =
              [\<lparr>pg_s = Some 0, pg_x = Some 0, pg_y = Some 0, pg_hdg = Some 0,
                pg_length = Some 10, pg_type = TLine\<rparr>]\<rparr>]
       = [False, True]"
  by (simp add: parseOpenDrive_def looseDoc_parses looseDoc_roads pushRoad_def readPlanView_def
        scopeChildren_def scopeChild_def pushGeometry_def geometryType_def getAttribute_def
        num_def orAttr_def Number_decimal_examples hasRequiredFields_def)

text \<open>
  Witness for C4: \<open>brokenDoc\<close> fails, and \<open>looseDoc\<close> yields a model with its two roads.
\<close>

theorem parseOpenDrive_keeps_every_road_witness:
  "parseOpenDrive Number_decimal brokenDoc = Inl (Error ''XML parse error'')
   \<and> (\<exists>m. parseOpenDrive Number_decimal looseDoc = Inr m
          \<and> length (roads m) = 2
          \<and> map road_id (roads m) = [None, Some ''7'']
          \<and> map road_length (roads m) = [None, Some 10]
          \<and> map (\<lambda>r. length (road_planView r)) (roads m) = [0, 1])"
  using parseOpenDrive_keeps_every_road[of brokenDoc Number_decimal]
        parseOpenDrive_keeps_every_road[of looseDoc Number_decimal]
  by (simp add: brokenDoc_error looseDoc_parses looseDoc_roads getAttribute_def num_def
        Number_decimal_examples scopeChildren_def scopeChild_def geometryType_def numeral_2_eq_2)

end
